theory Spec2Isabelle
  imports Complex_Main "HOL-Library.Multiset" "HOL-Library.Sublist" "HOL-Library.Char_ord"
    "HOL-Library.List_Lexorder"
begin

section \<open>Strings\<close>

text \<open>
  Python strings are modelled as \<^typ>\<open>string\<close>, the text being ASCII (the rupee sign of
  the messages is written as its three UTF-8 bytes). \<open>isspace\<close>, \<open>strip\<close> and \<open>lower\<close> are
  \<^verbatim>\<open>str.isspace\<close>, \<^verbatim>\<open>str.strip()\<close> and \<^verbatim>\<open>str.lower()\<close> on such text.
\<close>

definition isspace :: "char \<Rightarrow> bool" where
  "isspace c = (c \<in> set [CHR 0x09, CHR 0x0A, CHR 0x0B, CHR 0x0C, CHR 0x0D,
                          CHR 0x1C, CHR 0x1D, CHR 0x1E, CHR 0x1F, CHR 0x20])"

definition strip :: "string \<Rightarrow> string" where
  "strip s = rev (dropWhile isspace (rev (dropWhile isspace s)))"

definition lower_char :: "char \<Rightarrow> char" where
  "lower_char c =
     (case map_of (zip ''ABCDEFGHIJKLMNOPQRSTUVWXYZ'' ''abcdefghijklmnopqrstuvwxyz'') c of
        None \<Rightarrow> c
      | Some l \<Rightarrow> l)"

definition lower :: "string \<Rightarrow> string" where
  "lower s = map lower_char s"

text \<open>\<^verbatim>\<open>str(n)\<close> for a natural number, and for an integer.\<close>

fun str_nat :: "nat \<Rightarrow> string" where
  "str_nat n =
     (if n < 10 then [''0123456789'' ! n]
      else str_nat (n div 10) @ [''0123456789'' ! (n mod 10)])"

declare str_nat.simps [simp del]

definition str_int :: "int \<Rightarrow> string" where
  "str_int i = (if i < 0 then ''-'' else []) @ str_nat (nat \<bar>i\<bar>)"

text \<open>The format specification \<^verbatim>\<open>{i:,}\<close>: decimal digits in groups of three.\<close>

fun group3 :: "string \<Rightarrow> string" where
  "group3 (a # b # c # d # ds) = a # b # c # CHR '','' # group3 (d # ds)"
| "group3 ds = ds"

definition commas :: "int \<Rightarrow> string" where
  "commas i = (if i < 0 then ''-'' else []) @ rev (group3 (rev (str_nat (nat \<bar>i\<bar>))))"

text \<open>\<^verbatim>\<open>sep.join(xs)\<close>.\<close>

fun join :: "string \<Rightarrow> string list \<Rightarrow> string" where
  "join sep [] = []"
| "join sep [x] = x"
| "join sep (x # y # ys) = x @ sep @ join sep (y # ys)"

definition rupee :: string where
  "rupee = [CHR 0xE2, CHR 0x82, CHR 0xB9]"

definition quote :: string where
  "quote = [CHR 0x27]"

text \<open>\<^verbatim>\<open>d.get(key, default)\<close> on a key that may be absent.\<close>

definition get :: "'a option \<Rightarrow> 'a \<Rightarrow> 'a" where
  "get field dflt = (case field of None \<Rightarrow> dflt | Some x \<Rightarrow> x)"

section \<open>Data\<close>

text \<open>
  A vendor dict of the catalog (\<^verbatim>\<open>mock_vendors.json\<close>). Every key may be absent, which is
  \<open>None\<close>; \<open>tools.py\<close> reads \<open>name\<close>, \<open>category\<close> and \<open>price_per_100_bags_inr\<close>.
\<close>

record vendor =
  v_id :: "string option"
  v_name :: "string option"
  v_category :: "string option"
  v_price_per_100_bags_inr :: "int option"
  v_currency :: "string option"
  v_delivery_days :: "int option"
  v_in_stock :: "bool option"
  v_notes :: "string option"

text \<open>The dicts \<^verbatim>\<open>{"vendor": name, "reason": reason, "price": price}\<close> of the two
  rejection buckets.\<close>

record rejection =
  rej_vendor :: string
  rej_reason :: string
  rej_price :: int

record filter_result =
  eligible :: "vendor list"
  rejected :: "rejection list"
  over_budget :: "rejection list"
  message :: "string option"

record site_rules =
  rules_approval_limit :: int
  rules_vendor_blacklist :: "string list"

record order =
  order_site_name :: string
  order_vendor_name :: string
  order_material :: string
  order_quantity :: int
  order_price_inr :: int
  order_status :: string

text \<open>
  \<^verbatim>\<open>memory_store.json\<close> is one dict: a site's rules under the site's name, and the
  list of orders under the key \<^verbatim>\<open>"orders"\<close>.
\<close>

datatype entry = Rules site_rules | Orders "order list"

text \<open>
  The program's one float is the result of \<^verbatim>\<open>round(x, 1)\<close>: the float nearest to a number
  of tenths, given as a sign (\<open>True\<close> for minus) and the tenths, or an infinity.
\<close>

datatype pyfloat = Tenths bool int | Infinity bool

datatype detail = DStr string | DInt int | DFloat pyfloat | DList "string list"

text \<open>An entry of \<^verbatim>\<open>audit_log.jsonl\<close>, without its timestamp.\<close>

record event =
  event_type :: string
  event_site_name :: string
  event_details :: "(string \<times> detail) list"

text \<open>
  The files as the program sees them. \<open>memory_store\<close> is what
  \<^verbatim>\<open>read_json(MEMORY_PATH)\<close> returns (the empty dict when the file is missing or
  corrupt); \<open>vendors_file\<close> is the \<^verbatim>\<open>"vendors"\<close> entry of
  \<^verbatim>\<open>read_json(VENDORS_PATH)\<close>, \<open>None\<close> when there is none; \<open>write_fault\<close> says
  how writing \<^verbatim>\<open>memory_store.json\<close> fails, and \<open>audit_fault\<close> says that appending to the
  audit log fails.

  \<open>write_json\<close> creates the directory, opens the file for writing, which truncates it, and
  then dumps the dict. It fails either before the file is open (\<open>Open_fails\<close>, the file is
  as it was) or in the dump (\<open>Dump_fails\<close>, the file is left cut short, and \<open>read_json\<close>
  returns the empty dict for it). Both carry the text of the exception.
\<close>

datatype write_failure = Open_fails string | Dump_fails string

record world =
  memory_store :: "string \<rightharpoonup> entry"
  vendors_file :: "vendor list option"
  write_fault :: "write_failure option"
  audit_log :: "event list"
  audit_fault :: bool

datatype exn = ZeroDivisionError | OverflowError | AttributeError

section \<open>memory.py\<close>

definition read_json :: "world \<Rightarrow> (string \<rightharpoonup> entry)" where
  "read_json w = memory_store w"

text \<open>\<open>write_json\<close> returns \<open>None\<close> on success and the error text on failure.\<close>

definition write_json :: "(string \<rightharpoonup> entry) \<Rightarrow> world \<Rightarrow> string option \<times> world" where
  "write_json data w =
     (case write_fault w of
        None \<Rightarrow> (None, w\<lparr>memory_store := data\<rparr>)
      | Some (Open_fails exc) \<Rightarrow>
          (Some (''File write error (memory_store.json): '' @ exc), w)
      | Some (Dump_fails exc) \<Rightarrow>
          (Some (''File write error (memory_store.json): '' @ exc),
           w\<lparr>memory_store := Map.empty\<rparr>))"

text \<open>\<open>log_decision\<close> appends one entry; a failure to write it is swallowed.\<close>

definition log_decision :: "string \<Rightarrow> string \<Rightarrow> (string \<times> detail) list \<Rightarrow> world \<Rightarrow> world" where
  "log_decision ev site_name details w =
     (if audit_fault w then w
      else w\<lparr>audit_log := audit_log w @
             [\<lparr>event_type = ev, event_site_name = site_name, event_details = details\<rparr>]\<rparr>)"

section \<open>tools.py\<close>

subsection \<open>store_site_rules, retrieve_site_rules\<close>

definition store_site_rules :: "string \<Rightarrow> int \<Rightarrow> string list \<Rightarrow> world \<Rightarrow> string \<times> world" where
  "store_site_rules site_name approval_limit vendor_blacklist w =
     (let site_key = strip site_name in
      if site_key = [] then (''Error: site_name must be a non-empty string.'', w)
      else
        (let store = read_json w;
             rules = \<lparr>rules_approval_limit = approval_limit,
                      rules_vendor_blacklist = map strip vendor_blacklist\<rparr>;
             store' = store(site_key \<mapsto> Rules rules);
             (write_err, w1) = write_json store' w
         in case write_err of
              Some err \<Rightarrow> (''Error saving rules: '' @ err, w1)
            | None \<Rightarrow>
                (let w2 = log_decision ''rules_stored'' site_key
                            [(''approval_limit'', DInt approval_limit),
                             (''vendor_blacklist'', DList (rules_vendor_blacklist rules))] w1;
                     blacklist_display =
                       (if vendor_blacklist \<noteq> [] then join '', '' vendor_blacklist
                        else ''(none)'')
                 in (''Rules stored for site '' @ quote @ site_key @ quote @ '': ''
                       @ ''approval_limit='' @ rupee @ commas approval_limit @ '', ''
                       @ ''vendor_blacklist=['' @ blacklist_display @ ''].'', w2))))"

text \<open>\<open>Inr\<close> is the rules dict, \<open>Inl msg\<close> the dict \<^verbatim>\<open>{"error": msg}\<close>.\<close>

definition retrieve_site_rules :: "string \<Rightarrow> world \<Rightarrow> string + site_rules" where
  "retrieve_site_rules site_name w =
     (let site_key = strip site_name in
      if site_key = [] then Inl ''site_name must be a non-empty string.''
      else
        (let store = read_json w in
         case store site_key of
           Some (Rules rules) \<Rightarrow> Inr rules
         | _ \<Rightarrow> Inl (''No rules found for '' @ quote @ site_key @ quote @ ''. ''
                      @ ''Please set rules first using store_site_rules.'')))"

subsection \<open>fetch_vendors\<close>

definition fetch_vendors :: "string \<Rightarrow> world \<Rightarrow> vendor list \<times> world" where
  "fetch_vendors material w =
     (let all_vendors = get (vendors_file w) [];
          material_lower = lower (strip material);
          matched = filter (\<lambda>v. lower (get (v_category v) '''') = material_lower) all_vendors
      in if matched = [] then
           (let available = sort (remdups (map (\<lambda>v. get (v_category v) ''unknown'') all_vendors))
            in (matched,
                log_decision ''vendor_rejected'' ''''
                  [(''reason'', DStr (''No vendors found for material '' @ quote @ material @ quote)),
                   (''available_categories'', DList available)] w))
         else (matched, w))"

subsection \<open>filter_vendors\<close>

text \<open>The loop over the vendors, with the three lists and the audit log it appends to.\<close>

fun filter_loop ::
  "string set \<Rightarrow> int \<Rightarrow> string \<Rightarrow> vendor list \<Rightarrow>
   vendor list \<times> rejection list \<times> rejection list \<times> world \<Rightarrow>
   vendor list \<times> rejection list \<times> rejection list \<times> world" where
  "filter_loop blacklist_lower budget site_name [] acc = acc"
| "filter_loop blacklist_lower budget site_name (v # vs) (es, rs, os, w) =
     (let name = get (v_name v) ''Unknown'';
          price = get (v_price_per_100_bags_inr v) 0
      in if lower (strip name) \<in> blacklist_lower then
           (let reason = ''Blacklisted for this site'' in
            filter_loop blacklist_lower budget site_name vs
              (es, rs @ [\<lparr>rej_vendor = name, rej_reason = reason, rej_price = price\<rparr>], os,
               log_decision ''vendor_rejected'' site_name
                 [(''vendor'', DStr name), (''price'', DInt price), (''reason'', DStr reason)] w))
         else if price > budget then
           (let reason = ''Price '' @ rupee @ commas price @ '' exceeds budget ''
                           @ rupee @ commas budget in
            filter_loop blacklist_lower budget site_name vs
              (es, rs, os @ [\<lparr>rej_vendor = name, rej_reason = reason, rej_price = price\<rparr>],
               log_decision ''vendor_rejected'' site_name
                 [(''vendor'', DStr name), (''price'', DInt price), (''reason'', DStr reason)] w))
         else filter_loop blacklist_lower budget site_name vs (es @ [v], rs, os, w))"

text \<open>\<^verbatim>\<open>min(xs, key=f)\<close> on a non-empty list \<open>x # xs\<close>: the first least element.\<close>

fun min_key :: "('a \<Rightarrow> int) \<Rightarrow> 'a \<Rightarrow> 'a list \<Rightarrow> 'a" where
  "min_key f m [] = m"
| "min_key f m (x # xs) = min_key f (if f x < f m then x else m) xs"

definition filter_vendors ::
  "vendor list \<Rightarrow> string list \<Rightarrow> int \<Rightarrow> string \<Rightarrow> world \<Rightarrow> filter_result \<times> world" where
  "filter_vendors vendors blacklist budget site_name w =
     (let blacklist_lower = set (map (\<lambda>name. lower (strip name)) blacklist);
          (es, rs, os, w') = filter_loop blacklist_lower budget site_name vendors ([], [], [], w);
          es' = sort_key (\<lambda>v. get (v_price_per_100_bags_inr v) 0) es;
          msg =
            (if es' = [] \<and> os = [] \<and> rs \<noteq> [] then
               Some (''All '' @ str_nat (length rs) @ '' vendor(s) are blacklisted for this site. ''
                     @ ''No order can be placed. Update the blacklist or add new vendors.'')
             else
               (case os of
                  [] \<Rightarrow> None
                | x # xs \<Rightarrow>
                    if es' = [] then
                      (let cheapest = min_key rej_price x xs in
                       Some (''All non-blacklisted vendors exceed the budget of '' @ rupee
                             @ commas budget @ ''. '' @ ''Cheapest option: '' @ rej_vendor cheapest
                             @ '' at '' @ rupee @ commas (rej_price cheapest) @ ''. ''
                             @ ''Request a budget increase or approve the over-budget order.''))
                    else None))
      in (\<lparr>eligible = es', rejected = rs, over_budget = os, message = msg\<rparr>, w'))"

subsection \<open>The float arithmetic of place_order\<close>

text \<open>
  \<^verbatim>\<open>round((overage / approval_limit) * 100, 1)\<close> is computed in binary64: the true
  division of two integers and the product with 100 are each rounded to the nearest float,
  ties to the even mantissa. A finite float is a sign (\<open>True\<close> for minus), a mantissa and
  an exponent of 2.
\<close>

datatype double = Finite bool int int | Infinite bool

text \<open>\<^verbatim>\<open>int.bit_length()\<close> of a number that is not negative.\<close>

function bit_length :: "int \<Rightarrow> int" where
  "bit_length n = (if n \<le> 0 then 0 else 1 + bit_length (n div 2))"
  by pat_completeness auto
termination
  by (relation "measure nat") auto

declare bit_length.simps [simp del]

text \<open>The quotient of \<open>n\<close> by \<open>d > 0\<close> rounded to the nearest integer, ties to even.\<close>

definition round_half_even :: "int \<Rightarrow> int \<Rightarrow> int" where
  "round_half_even n d =
     (let q = n div d; r = n mod d
      in if 2 * r < d then q
         else if 2 * r > d then q + 1
         else if even q then q else q + 1)"

text \<open>For \<open>n, d > 0\<close>, the \<open>e\<close> with \<open>2 ^ e \<le> n / d < 2 ^ (e + 1)\<close>.\<close>

definition exponent :: "int \<Rightarrow> int \<Rightarrow> int" where
  "exponent n d =
     (let k = bit_length n - bit_length d
      in if d * 2 ^ nat k \<le> n * 2 ^ nat (- k) then k else k - 1)"

text \<open>
  The float nearest to \<open>n / d\<close> for \<open>n \<ge> 0\<close> and \<open>d > 0\<close>, as mantissa and exponent: 53
  bits of mantissa, and no exponent below that of the subnormal floats. A result of
  \<open>2 ^ 1024\<close> or more is no float.
\<close>

definition round_binary64 :: "int \<Rightarrow> int \<Rightarrow> int \<times> int" where
  "round_binary64 n d =
     (if n = 0 then (0, 0)
      else
        (let e = exponent n d;
             q = max (e - 52) (- 1074)
         in (round_half_even (n * 2 ^ nat (- q)) (d * 2 ^ nat q), q)))"

definition overflows :: "int \<times> int \<Rightarrow> bool" where
  "overflows x = (case x of (m, q) \<Rightarrow> 0 \<le> q \<and> 2 ^ 1024 \<le> m * 2 ^ nat q)"

text \<open>\<^verbatim>\<open>a / b\<close> on integers: it raises when \<open>b\<close> is 0 and when the quotient is too large
  for a float.\<close>

definition true_divide :: "int \<Rightarrow> int \<Rightarrow> exn + double" where
  "true_divide a b =
     (if b = 0 then Inl ZeroDivisionError
      else
        (let x = round_binary64 \<bar>a\<bar> \<bar>b\<bar>
         in if overflows x then Inl OverflowError
            else Inr (Finite ((a < 0) \<noteq> (b < 0)) (fst x) (snd x))))"

text \<open>\<^verbatim>\<open>x * 100\<close> on a float: too large a product is an infinity, not an exception.\<close>

fun times_100 :: "double \<Rightarrow> double" where
  "times_100 (Finite s m q) =
     (let x = round_binary64 (100 * m * 2 ^ nat q) (2 ^ nat (- q))
      in if overflows x then Infinite s else Finite s (fst x) (snd x))"
| "times_100 (Infinite s) = Infinite s"

text \<open>\<^verbatim>\<open>round(x, 1)\<close>: the exact value of the float is rounded to tenths, ties to even, and
  an infinity stays what it is.\<close>

fun round_1 :: "double \<Rightarrow> pyfloat" where
  "round_1 (Finite s m q) = Tenths s (round_half_even (10 * m * 2 ^ nat q) (2 ^ nat (- q)))"
| "round_1 (Infinite s) = Infinity s"

subsection \<open>place_order, confirm_order\<close>

text \<open>
  \<^verbatim>\<open>orders = store.get("orders", []); orders.append(order)\<close>: a list under the key is
  extended, a missing key starts a new list, and a rules dict under the key (a site named
  \<^verbatim>\<open>orders\<close>) has no \<^verbatim>\<open>append\<close>.
\<close>

definition append_order :: "(string \<rightharpoonup> entry) \<Rightarrow> order \<Rightarrow> exn + order list" where
  "append_order store order =
     (case store ''orders'' of
        None \<Rightarrow> Inr ([] @ [order])
      | Some (Orders orders) \<Rightarrow> Inr (orders @ [order])
      | Some (Rules rules) \<Rightarrow> Inl AttributeError)"

text \<open>
  \<open>repr_float\<close> is the text Python prints for the float in the f-string; the result is the
  returned string, or the exception that leaves the function: the division raises for a
  limit of 0 and for a quotient beyond the floats.
\<close>

definition place_order ::
  "(pyfloat \<Rightarrow> string) \<Rightarrow> string \<Rightarrow> int \<Rightarrow> int \<Rightarrow> string \<Rightarrow> string \<Rightarrow> int \<Rightarrow> world \<Rightarrow>
   (exn + string) \<times> world" where
  "place_order repr_float vendor_name price quantity material site_name approval_limit w =
     (let w1 = log_decision ''vendor_selected'' site_name
                 [(''vendor'', DStr vendor_name), (''price'', DInt price),
                  (''quantity'', DInt quantity), (''material'', DStr material)] w
      in if price \<le> approval_limit then
           (let order = \<lparr>order_site_name = site_name, order_vendor_name = vendor_name,
                          order_material = material, order_quantity = quantity,
                          order_price_inr = price, order_status = ''confirmed''\<rparr>;
                store = read_json w1
            in case append_order store order of
                 Inl e \<Rightarrow> (Inl e, w1)
               | Inr orders \<Rightarrow>
                   (let (write_err, w2) = write_json (store(''orders'' \<mapsto> Orders orders)) w1
                    in case write_err of
                         Some err \<Rightarrow> (Inr (''Error saving order: '' @ err), w2)
                       | None \<Rightarrow>
                           (Inr (''ORDER_CONFIRMED: Order placed: '' @ str_int quantity
                                 @ '' bags '' @ material @ '' from '' @ vendor_name @ '' at ''
                                 @ rupee @ commas price @ ''. ''
                                 @ ''Within approval limit of '' @ rupee
                                 @ commas approval_limit @ ''.''),
                            log_decision ''order_placed'' site_name
                              [(''vendor'', DStr vendor_name), (''price'', DInt price),
                               (''quantity'', DInt quantity), (''material'', DStr material),
                               (''approval'', DStr ''auto'')] w2)))
         else
           (let overage = price - approval_limit in
            case true_divide overage approval_limit of
              Inl e \<Rightarrow> (Inl e, w1)
            | Inr ratio \<Rightarrow>
              (let percentage = round_1 (times_100 ratio) in
               (Inr (''APPROVAL_REQUIRED'' @ [CHR 0x0A]
                     @ ''Order Details:'' @ [CHR 0x0A]
                     @ ''  Vendor: '' @ vendor_name @ [CHR 0x0A]
                     @ ''  Cost: '' @ rupee @ commas price @ [CHR 0x0A]
                     @ ''  Limit: '' @ rupee @ commas approval_limit @ [CHR 0x0A]
                     @ ''  Overage: '' @ rupee @ commas overage
                     @ '' ('' @ repr_float percentage @ ''%)'' @ [CHR 0x0A]
                     @ [CHR 0x0A]
                     @ ''Approve this order?''),
                log_decision ''approval_requested'' site_name
                  [(''vendor'', DStr vendor_name), (''price'', DInt price),
                   (''approval_limit'', DInt approval_limit),
                   (''overage'', DInt overage), (''overage_pct'', DFloat percentage)] w1))))"

definition confirm_order ::
  "string \<Rightarrow> int \<Rightarrow> int \<Rightarrow> string \<Rightarrow> string \<Rightarrow> world \<Rightarrow> (exn + string) \<times> world" where
  "confirm_order vendor_name price quantity material site_name w =
     (let order = \<lparr>order_site_name = site_name, order_vendor_name = vendor_name,
                    order_material = material, order_quantity = quantity,
                    order_price_inr = price, order_status = ''confirmed_with_approval''\<rparr>;
          store = read_json w
      in case append_order store order of
           Inl e \<Rightarrow> (Inl e, w)
         | Inr orders \<Rightarrow>
             (let (write_err, w1) = write_json (store(''orders'' \<mapsto> Orders orders)) w
              in case write_err of
                   Some err \<Rightarrow> (Inr (''Error saving order: '' @ err), w1)
                 | None \<Rightarrow>
                     (Inr (''ORDER_CONFIRMED: Order placed: '' @ str_int quantity
                           @ '' bags '' @ material @ '' from '' @ vendor_name @ '' at ''
                           @ rupee @ commas price
                           @ ''. (Human-approved over-budget order.)''),
                      log_decision ''order_placed'' site_name
                        [(''vendor'', DStr vendor_name), (''price'', DInt price),
                         (''quantity'', DInt quantity), (''material'', DStr material),
                         (''approval'', DStr ''human'')] w1)))"

section \<open>Notions used to state the properties\<close>

text \<open>The name and the price the loop of \<open>filter_vendors\<close> reads from a vendor dict.\<close>

definition name_of :: "vendor \<Rightarrow> string" where
  "name_of v = get (v_name v) ''Unknown''"

definition price_of :: "vendor \<Rightarrow> int" where
  "price_of v = get (v_price_per_100_bags_inr v) 0"

text \<open>The blacklist test of the loop, and the dicts the loop appends to the two buckets.\<close>

definition blacklisted :: "string list \<Rightarrow> vendor \<Rightarrow> bool" where
  "blacklisted blacklist v =
     (lower (strip (name_of v)) \<in> set (map (\<lambda>name. lower (strip name)) blacklist))"

definition blacklist_entry :: "vendor \<Rightarrow> rejection" where
  "blacklist_entry v =
     \<lparr>rej_vendor = name_of v, rej_reason = ''Blacklisted for this site'',
      rej_price = price_of v\<rparr>"

definition budget_entry :: "int \<Rightarrow> vendor \<Rightarrow> rejection" where
  "budget_entry budget v =
     \<lparr>rej_vendor = name_of v,
      rej_reason = ''Price '' @ rupee @ commas (price_of v) @ '' exceeds budget ''
                     @ rupee @ commas budget,
      rej_price = price_of v\<rparr>"

definition within_budget :: "string list \<Rightarrow> int \<Rightarrow> vendor \<Rightarrow> bool" where
  "within_budget blacklist budget v = (\<not> blacklisted blacklist v \<and> \<not> price_of v > budget)"

definition beyond_budget :: "string list \<Rightarrow> int \<Rightarrow> vendor \<Rightarrow> bool" where
  "beyond_budget blacklist budget v = (\<not> blacklisted blacklist v \<and> price_of v > budget)"

text \<open>A world with empty files in which every write succeeds, and a vendor dict with a
  name, a category and a price.\<close>

definition empty_world :: world where
  "empty_world =
     \<lparr>memory_store = Map.empty, vendors_file = None, write_fault = None,
      audit_log = [], audit_fault = False\<rparr>"

definition mk_vendor :: "string \<Rightarrow> string \<Rightarrow> int \<Rightarrow> vendor" where
  "mk_vendor name category price =
     \<lparr>v_id = None, v_name = Some name, v_category = Some category,
      v_price_per_100_bags_inr = Some price, v_currency = None, v_delivery_days = None,
      v_in_stock = None, v_notes = None\<rparr>"

text \<open>The three cement vendors of the test catalog, and further vendor lists.\<close>

definition cement_vendors :: "vendor list" where
  "cement_vendors =
     [mk_vendor ''BadRock Cements'' ''cement'' 35000,
      mk_vendor ''GoodRock Cements'' ''cement'' 45000,
      mk_vendor ''SlowRock Cements'' ''cement'' 39000]"

definition same_name_vendors :: "vendor list" where
  "same_name_vendors = [mk_vendor ''A'' ''cement'' 10, mk_vendor ''A'' ''cement'' 100]"

definition tied_vendors :: "vendor list" where
  "tied_vendors =
     [mk_vendor ''X'' ''cement'' 39000, mk_vendor ''Y'' ''cement'' 35000,
      mk_vendor ''Z'' ''cement'' 39000]"

definition no_price_vendor :: vendor where
  "no_price_vendor = (mk_vendor ''NoPrice'' ''cement'' 0)\<lparr>v_price_per_100_bags_inr := None\<rparr>"

definition no_name_vendor :: vendor where
  "no_name_vendor = (mk_vendor [] ''cement'' 700)\<lparr>v_name := None\<rparr>"

text \<open>The test of \<open>fetch_vendors\<close> on a vendor of the catalog, and the test that would also
  trim the vendor's category.\<close>

definition category_matches :: "string \<Rightarrow> vendor \<Rightarrow> bool" where
  "category_matches material v = (lower (get (v_category v) []) = lower (strip material))"

definition category_matches_trimmed :: "string \<Rightarrow> vendor \<Rightarrow> bool" where
  "category_matches_trimmed material v =
     (lower (strip (get (v_category v) [])) = lower (strip material))"

definition category_of :: "vendor \<Rightarrow> string" where
  "category_of v = get (v_category v) ''unknown''"

text \<open>The orders list of the store, and whether the key \<^verbatim>\<open>"orders"\<close> is free for it.\<close>

definition orders_of :: "world \<Rightarrow> order list" where
  "orders_of w = (case memory_store w ''orders'' of Some (Orders orders) \<Rightarrow> orders | _ \<Rightarrow> [])"

definition orders_is_list :: "world \<Rightarrow> bool" where
  "orders_is_list w = (case memory_store w ''orders'' of Some (Rules rules) \<Rightarrow> False | _ \<Rightarrow> True)"

text \<open>Worlds: a catalog of four vendors in two categories, a catalog whose one category
  ends in a blank, and a store that cannot be written.\<close>

definition catalog_world :: world where
  "catalog_world =
     \<lparr>memory_store = Map.empty,
      vendors_file = Some (cement_vendors @ [mk_vendor ''SteelCo'' ''Steel'' 90000]),
      write_fault = None, audit_log = [], audit_fault = False\<rparr>"

definition padded_catalog_world :: world where
  "padded_catalog_world =
     \<lparr>memory_store = Map.empty, vendors_file = Some [mk_vendor ''V'' ''cement '' 1],
      write_fault = None, audit_log = [], audit_fault = False\<rparr>"

definition readonly_world :: world where
  "readonly_world =
     \<lparr>memory_store = Map.empty, vendors_file = None,
      write_fault = Some (Open_fails ''Permission denied''), audit_log = [],
      audit_fault = False\<rparr>"

text \<open>The float texts of the two documented escalations (12.5 percent for 5000 over 40000,
  2.6 percent for 1000 over 38000).\<close>

definition repr_documented :: "pyfloat \<Rightarrow> string" where
  "repr_documented x =
     (if x = Tenths False 125 then ''12.5''
      else if x = Tenths False 26 then ''2.6'' else [])"

text \<open>The order dict that \<open>place_order\<close> and \<open>confirm_order\<close> build.\<close>

definition confirmed_order :: "string \<Rightarrow> int \<Rightarrow> int \<Rightarrow> string \<Rightarrow> string \<Rightarrow> string \<Rightarrow> order" where
  "confirmed_order vendor_name price quantity material site_name status =
     \<lparr>order_site_name = site_name, order_vendor_name = vendor_name,
      order_material = material, order_quantity = quantity,
      order_price_inr = price, order_status = status\<rparr>"

text \<open>
  The percentage in tenths as the specification words it: the exact
  \<open>100 * overage / approval_limit\<close> rounded to one decimal place, a half going up, or a
  half going to the even digit.
\<close>

definition claimed_pct_half_up :: "int \<Rightarrow> int \<Rightarrow> int" where
  "claimed_pct_half_up overage approval_limit =
     (2 * (1000 * overage) + approval_limit) div (2 * approval_limit)"

definition claimed_pct_half_even :: "int \<Rightarrow> int \<Rightarrow> int" where
  "claimed_pct_half_even overage approval_limit =
     round_half_even (1000 * overage) approval_limit"

text \<open>The two audit entries of an escalated call of \<open>place_order\<close>.\<close>

definition vendor_selected :: "string \<Rightarrow> int \<Rightarrow> int \<Rightarrow> string \<Rightarrow> (string \<times> detail) list" where
  "vendor_selected vendor_name price quantity material =
     [(''vendor'', DStr vendor_name), (''price'', DInt price),
      (''quantity'', DInt quantity), (''material'', DStr material)]"

definition approval_requested :: "string \<Rightarrow> int \<Rightarrow> int \<Rightarrow> pyfloat \<Rightarrow> (string \<times> detail) list" where
  "approval_requested vendor_name price approval_limit percentage =
     [(''vendor'', DStr vendor_name), (''price'', DInt price),
      (''approval_limit'', DInt approval_limit),
      (''overage'', DInt (price - approval_limit)), (''overage_pct'', DFloat percentage)]"

text \<open>The text of an escalation, with the float as \<open>repr_float\<close> prints it.\<close>

definition approval_text :: "(pyfloat \<Rightarrow> string) \<Rightarrow> string \<Rightarrow> int \<Rightarrow> int \<Rightarrow> pyfloat \<Rightarrow> string" where
  "approval_text repr_float vendor_name price approval_limit percentage =
     ''APPROVAL_REQUIRED'' @ [CHR 0x0A]
     @ ''Order Details:'' @ [CHR 0x0A]
     @ ''  Vendor: '' @ vendor_name @ [CHR 0x0A]
     @ ''  Cost: '' @ rupee @ commas price @ [CHR 0x0A]
     @ ''  Limit: '' @ rupee @ commas approval_limit @ [CHR 0x0A]
     @ ''  Overage: '' @ rupee @ commas (price - approval_limit)
     @ '' ('' @ repr_float percentage @ ''%)'' @ [CHR 0x0A]
     @ [CHR 0x0A]
     @ ''Approve this order?''"

text \<open>A store whose file is cut short by a failing dump.\<close>

definition full_disk_world :: world where
  "full_disk_world =
     \<lparr>memory_store = [''Site-A'' \<mapsto> Rules \<lparr>rules_approval_limit = 1, rules_vendor_blacklist = []\<rparr>],
      vendors_file = None, write_fault = Some (Dump_fails ''No space left on device''),
      audit_log = [], audit_fault = False\<rparr>"

definition defaults_vendors :: "vendor list" where
  "defaults_vendors = [mk_vendor ''A'' ''cement'' 500, no_price_vendor, no_name_vendor]"

definition vendor_key :: "vendor \<Rightarrow> string \<times> int" where
  "vendor_key v = (name_of v, price_of v)"

definition entry_key :: "rejection \<Rightarrow> string \<times> int" where
  "entry_key e = (rej_vendor e, rej_price e)"

section \<open>The buckets of filter_vendors\<close>

lemma filter_loop_eligible:
  "fst (filter_loop (set (map (\<lambda>name. lower (strip name)) bl)) budget site vs (es, rs, os, w)) =
     es @ filter (within_budget bl budget) vs"
  by (induction vs arbitrary: es rs os w)
     (simp_all add: Let_def within_budget_def blacklisted_def name_of_def price_of_def)

lemma filter_loop_rejected:
  "fst (snd (filter_loop (set (map (\<lambda>name. lower (strip name)) bl)) budget site vs
               (es, rs, os, w))) =
     rs @ map blacklist_entry (filter (blacklisted bl) vs)"
  by (induction vs arbitrary: es rs os w)
     (simp_all add: Let_def blacklisted_def blacklist_entry_def name_of_def price_of_def)

lemma filter_loop_over_budget:
  "fst (snd (snd (filter_loop (set (map (\<lambda>name. lower (strip name)) bl)) budget site vs
                    (es, rs, os, w)))) =
     os @ map (budget_entry budget) (filter (beyond_budget bl budget) vs)"
  by (induction vs arbitrary: es rs os w)
     (simp_all add: Let_def beyond_budget_def blacklisted_def budget_entry_def name_of_def
        price_of_def)

lemma eligible_filter_vendors:
  "eligible (fst (filter_vendors vs bl budget site w)) =
     sort_key price_of (filter (within_budget bl budget) vs)"
proof -
  have "price_of = (\<lambda>v. get (v_price_per_100_bags_inr v) 0)"
    by (simp add: price_of_def fun_eq_iff)
  then show ?thesis
    using filter_loop_eligible [of bl budget site vs "[]" "[]" "[]" w]
    by (simp add: filter_vendors_def Let_def split_beta)
qed

lemma rejected_filter_vendors:
  "rejected (fst (filter_vendors vs bl budget site w)) =
     map blacklist_entry (filter (blacklisted bl) vs)"
  using filter_loop_rejected [of bl budget site vs "[]" "[]" "[]" w]
  by (simp add: filter_vendors_def Let_def split_beta)

lemma over_budget_filter_vendors:
  "over_budget (fst (filter_vendors vs bl budget site w)) =
     map (budget_entry budget) (filter (beyond_budget bl budget) vs)"
  using filter_loop_over_budget [of bl budget site vs "[]" "[]" "[]" w]
  by (simp add: filter_vendors_def Let_def split_beta)

lemmas buckets = eligible_filter_vendors rejected_filter_vendors over_budget_filter_vendors

lemma three_way_count:
  "length (filter (within_budget bl b) vs) + length (filter (blacklisted bl) vs)
     + length (filter (beyond_budget bl b) vs) = length vs"
  by (induction vs) (simp_all add: within_budget_def beyond_budget_def)

lemma entry_key_blacklist_entry [simp]: "entry_key (blacklist_entry v) = vendor_key v"
  by (simp add: entry_key_def blacklist_entry_def vendor_key_def)

lemma entry_key_budget_entry [simp]: "entry_key (budget_entry b v) = vendor_key v"
  by (simp add: entry_key_def budget_entry_def vendor_key_def)

lemma three_way_mset:
  "mset (map vendor_key (filter (within_budget bl b) vs))
     + mset (map entry_key (map blacklist_entry (filter (blacklisted bl) vs)))
     + mset (map entry_key (map (budget_entry b) (filter (beyond_budget bl b) vs)))
   = mset (map vendor_key vs)"
  by (induction vs) (simp_all add: within_budget_def beyond_budget_def)

lemma blacklisted_name: "name_of u = name_of v \<Longrightarrow> blacklisted bl u \<Longrightarrow> blacklisted bl v"
  by (simp add: blacklisted_def)

lemma rej_vendor_blacklist_entry [simp]: "rej_vendor (blacklist_entry v) = name_of v"
  by (simp add: blacklist_entry_def)

lemma rej_vendor_budget_entry [simp]: "rej_vendor (budget_entry b v) = name_of v"
  by (simp add: budget_entry_def)

lemma rej_price_budget_entry [simp]: "rej_price (budget_entry b v) = price_of v"
  by (simp add: budget_entry_def)

lemma rej_price_blacklist_entry [simp]: "rej_price (blacklist_entry v) = price_of v"
  by (simp add: blacklist_entry_def)

lemma rejected_names:
  "n \<in> set (map rej_vendor (rejected (fst (filter_vendors vs bl budget site w)))) \<longleftrightarrow>
     (\<exists>v \<in> set vs. blacklisted bl v \<and> name_of v = n)"
  by (auto simp: buckets)

lemma over_budget_names:
  "n \<in> set (map rej_vendor (over_budget (fst (filter_vendors vs bl budget site w)))) \<longleftrightarrow>
     (\<exists>v \<in> set vs. beyond_budget bl budget v \<and> name_of v = n)"
  by (auto simp: buckets)

lemma eligible_names:
  "n \<in> set (map name_of (eligible (fst (filter_vendors vs bl budget site w)))) \<longleftrightarrow>
     (\<exists>v \<in> set vs. within_budget bl budget v \<and> name_of v = n)"
  by (auto simp: buckets)

text \<open>Facts that evaluate the string functions and the fixtures on concrete inputs.\<close>

lemma str_nat_small: "n < 10 \<Longrightarrow> str_nat n = [''0123456789'' ! n]"
  by (simp add: str_nat.simps)

lemma str_nat_big:
  "10 \<le> n \<Longrightarrow> str_nat n = str_nat (n div 10) @ [''0123456789'' ! (n mod 10)]"
  by (subst str_nat.simps) simp

lemmas string_eval = lower_def strip_def isspace_def lower_char_def get_def str_nat_small
  str_nat_big str_int_def commas_def rupee_def quote_def

lemmas vendor_eval = name_of_def price_of_def blacklisted_def within_budget_def
  beyond_budget_def blacklist_entry_def budget_entry_def vendor_key_def entry_key_def
  mk_vendor_def cement_vendors_def same_name_vendors_def tied_vendors_def
  no_price_vendor_def no_name_vendor_def defaults_vendors_def

section \<open>Properties of filter_vendors\<close>

text \<open>
  C1 (amended). For every vendor list, blacklist and budget, the three buckets of
  \<open>filter_vendors\<close> have together as many entries as the input, every input vendor (its
  name and price, counted with multiplicity) is in exactly one of them, the names in
  \<open>rejected\<close> are disjoint from the names in \<open>eligible\<close> and in \<open>over_budget\<close>, and when the
  names of the input are pairwise distinct the names in \<open>eligible\<close> and \<open>over_budget\<close> are
  disjoint too.
\<close>

theorem filter_vendors_partition:
  fixes vs bl budget site w
  defines "r \<equiv> fst (filter_vendors vs bl budget site w)"
  shows "length (eligible r) + length (rejected r) + length (over_budget r) = length vs
    \<and> mset (map vendor_key (eligible r)) + mset (map entry_key (rejected r))
        + mset (map entry_key (over_budget r)) = mset (map vendor_key vs)
    \<and> set (map rej_vendor (rejected r)) \<inter> set (map name_of (eligible r)) = {}
    \<and> set (map rej_vendor (rejected r)) \<inter> set (map rej_vendor (over_budget r)) = {}
    \<and> (distinct (map name_of vs) \<longrightarrow>
          set (map name_of (eligible r)) \<inter> set (map rej_vendor (over_budget r)) = {})"
proof (intro conjI impI)
  show "length (eligible r) + length (rejected r) + length (over_budget r) = length vs"
    using three_way_count [of bl budget vs] by (simp add: r_def buckets)
next
  have "mset (map vendor_key (sort_key price_of (filter (within_budget bl budget) vs)))
          = mset (map vendor_key (filter (within_budget bl budget) vs))"
    by (metis mset_map mset_sort)
  then show "mset (map vendor_key (eligible r)) + mset (map entry_key (rejected r))
        + mset (map entry_key (over_budget r)) = mset (map vendor_key vs)"
    using three_way_mset [of bl budget vs] by (simp only: r_def buckets)
next
  show "set (map rej_vendor (rejected r)) \<inter> set (map name_of (eligible r)) = {}"
  proof (rule ccontr)
    assume "set (map rej_vendor (rejected r)) \<inter> set (map name_of (eligible r)) \<noteq> {}"
    then obtain n where "n \<in> set (map rej_vendor (rejected r))"
      and "n \<in> set (map name_of (eligible r))"
      by blast
    then obtain u v where "blacklisted bl u" "name_of u = n"
      and "within_budget bl budget v" "name_of v = n"
      unfolding r_def rejected_names eligible_names by blast
    then show False using blacklisted_name [of u v bl] by (simp add: within_budget_def)
  qed
next
  show "set (map rej_vendor (rejected r)) \<inter> set (map rej_vendor (over_budget r)) = {}"
  proof (rule ccontr)
    assume "set (map rej_vendor (rejected r)) \<inter> set (map rej_vendor (over_budget r)) \<noteq> {}"
    then obtain n where "n \<in> set (map rej_vendor (rejected r))"
      and "n \<in> set (map rej_vendor (over_budget r))"
      by blast
    then obtain u v where "blacklisted bl u" "name_of u = n"
      and "beyond_budget bl budget v" "name_of v = n"
      unfolding r_def rejected_names over_budget_names by blast
    then show False using blacklisted_name [of u v bl] by (simp add: beyond_budget_def)
  qed
next
  assume d: "distinct (map name_of vs)"
  then have inj: "inj_on name_of (set vs)" by (simp add: distinct_map)
  show "set (map name_of (eligible r)) \<inter> set (map rej_vendor (over_budget r)) = {}"
  proof (rule ccontr)
    assume "set (map name_of (eligible r)) \<inter> set (map rej_vendor (over_budget r)) \<noteq> {}"
    then obtain n where "n \<in> set (map name_of (eligible r))"
      and "n \<in> set (map rej_vendor (over_budget r))"
      by blast
    then obtain u v where u: "u \<in> set vs" "within_budget bl budget u" "name_of u = n"
      and v: "v \<in> set vs" "beyond_budget bl budget v" "name_of v = n"
      unfolding r_def eligible_names over_budget_names by blast
    from inj u(1,3) v(1,3) have "u = v" by (auto dest: inj_onD)
    with u(2) v(2) show False by (simp add: within_budget_def beyond_budget_def)
  qed
qed

text \<open>The theorem on the test catalog, whose three names are distinct.\<close>

theorem filter_vendors_partition_witness:
  "distinct (map name_of cement_vendors)
   \<and> set (map name_of (eligible (fst (filter_vendors cement_vendors [''BadRock Cements'']
                                         40000 ''Delhi-Site-7'' empty_world))))
       \<inter> set (map rej_vendor (over_budget (fst (filter_vendors cement_vendors
                   [''BadRock Cements''] 40000 ''Delhi-Site-7'' empty_world)))) = {}"
proof -
  have d: "distinct (map name_of cement_vendors)"
    by (simp add: vendor_eval string_eval)
  from filter_vendors_partition [of cement_vendors "[''BadRock Cements'']" 40000
         "''Delhi-Site-7''" empty_world] d
  show ?thesis by blast
qed

text \<open>
  C1 as stated fails: two vendors of the same name, one within the budget and one beyond
  it, put that name into \<open>eligible\<close> and into \<open>over_budget\<close>.
\<close>

theorem filter_vendors_same_name_counterexample:
  "set (map name_of (eligible (fst (filter_vendors same_name_vendors [] 50 [] empty_world))))
     \<inter> set (map rej_vendor
              (over_budget (fst (filter_vendors same_name_vendors [] 50 [] empty_world))))
   \<noteq> {}"
  by (simp add: buckets vendor_eval string_eval)

text \<open>
  C7. A vendor of the input whose name, trimmed and lowercased, is in the blacklist
  (trimmed and lowercased) gets its entry in \<open>rejected\<close>, whatever its price: it is not in
  \<open>eligible\<close>, its name is not in \<open>over_budget\<close>, and \<open>over_budget\<close> holds exactly the
  vendors that are not blacklisted and cost more than the budget.
\<close>

theorem blacklist_precedence:
  fixes vs bl budget site w
  defines "r \<equiv> fst (filter_vendors vs bl budget site w)"
  assumes "v \<in> set vs" and "blacklisted bl v"
  shows "blacklist_entry v \<in> set (rejected r)
    \<and> v \<notin> set (eligible r)
    \<and> name_of v \<notin> set (map rej_vendor (over_budget r))
    \<and> over_budget r = map (budget_entry budget) (filter (beyond_budget bl budget) vs)"
proof (intro conjI)
  show "blacklist_entry v \<in> set (rejected r)"
    using assms(2,3) by (simp add: r_def buckets)
  show "v \<notin> set (eligible r)"
    using assms(3) by (simp add: r_def buckets within_budget_def)
  show "name_of v \<notin> set (map rej_vendor (over_budget r))"
  proof
    assume "name_of v \<in> set (map rej_vendor (over_budget r))"
    then obtain u where "beyond_budget bl budget u" "name_of u = name_of v"
      unfolding r_def over_budget_names by blast
    then show False
      using blacklisted_name [of v u bl] assms(3) by (simp add: beyond_budget_def)
  qed
  show "over_budget r = map (budget_entry budget) (filter (beyond_budget bl budget) vs)"
    by (simp add: r_def buckets)
qed

text \<open>A vendor that is blacklisted and also costs more than the budget.\<close>

theorem blacklist_precedence_witness:
  "mk_vendor ''BadRock Cements'' ''cement'' 35000 \<in> set cement_vendors
   \<and> blacklisted [''  badrock CEMENTS ''] (mk_vendor ''BadRock Cements'' ''cement'' 35000)
   \<and> price_of (mk_vendor ''BadRock Cements'' ''cement'' 35000) > 1000
   \<and> blacklist_entry (mk_vendor ''BadRock Cements'' ''cement'' 35000)
       \<in> set (rejected (fst (filter_vendors cement_vendors [''  badrock CEMENTS ''] 1000
                               ''Delhi-Site-7'' empty_world)))
   \<and> ''BadRock Cements''
       \<notin> set (map rej_vendor (over_budget (fst (filter_vendors cement_vendors
                   [''  badrock CEMENTS ''] 1000 ''Delhi-Site-7'' empty_world))))"
proof -
  have v: "mk_vendor ''BadRock Cements'' ''cement'' 35000 \<in> set cement_vendors"
    by (simp add: cement_vendors_def)
  have b: "blacklisted [''  badrock CEMENTS ''] (mk_vendor ''BadRock Cements'' ''cement'' 35000)"
    by (simp add: vendor_eval string_eval)
  have p: "price_of (mk_vendor ''BadRock Cements'' ''cement'' 35000) > 1000"
    by (simp add: vendor_eval string_eval)
  have n: "name_of (mk_vendor ''BadRock Cements'' ''cement'' 35000) = ''BadRock Cements''"
    by (simp add: vendor_eval string_eval)
  note t = blacklist_precedence [OF v b, of 1000 "''Delhi-Site-7''" empty_world, unfolded n]
  from t v b p show ?thesis by blast
qed

text \<open>
  C8. The \<open>eligible\<close> list is non-decreasing in price: for positions \<open>i < j\<close> the price at
  \<open>i\<close> is at most the price at \<open>j\<close>. The sort is stable: the eligible vendors of any one
  price are in their input order, and \<open>eligible\<close> is a permutation of the vendors of the
  input that are neither blacklisted nor beyond the budget.
\<close>

theorem eligible_sorted_stable:
  fixes vs bl budget site w
  defines "r \<equiv> fst (filter_vendors vs bl budget site w)"
  shows "(\<forall>i j. i < j \<and> j < length (eligible r) \<longrightarrow>
            price_of (eligible r ! i) \<le> price_of (eligible r ! j))
    \<and> (\<forall>p. filter (\<lambda>v. price_of v = p) (eligible r) =
            filter (\<lambda>v. price_of v = p) (filter (within_budget bl budget) vs))
    \<and> mset (eligible r) = mset (filter (within_budget bl budget) vs)"
proof (intro conjI allI impI)
  fix i j assume ij: "i < j \<and> j < length (eligible r)"
  have "sorted (map price_of (eligible r))"
    by (simp add: r_def buckets)
  then have "map price_of (eligible r) ! i \<le> map price_of (eligible r) ! j"
    using ij by (intro sorted_nth_mono) simp_all
  then show "price_of (eligible r ! i) \<le> price_of (eligible r ! j)"
    using ij by simp
next
  fix p
  show "filter (\<lambda>v. price_of v = p) (eligible r) =
        filter (\<lambda>v. price_of v = p) (filter (within_budget bl budget) vs)"
    unfolding r_def buckets by (rule sort_key_stable)
next
  show "mset (eligible r) = mset (filter (within_budget bl budget) vs)"
    by (simp add: r_def buckets)
qed

text \<open>Two vendors of one price stay in input order behind a cheaper one.\<close>

theorem eligible_sorted_stable_witness:
  "(0::nat) < 1 \<and> 1 < length (eligible (fst (filter_vendors tied_vendors [] 40000 [] empty_world)))
   \<and> price_of (eligible (fst (filter_vendors tied_vendors [] 40000 [] empty_world)) ! 0)
      \<le> price_of (eligible (fst (filter_vendors tied_vendors [] 40000 [] empty_world)) ! 1)
   \<and> eligible (fst (filter_vendors tied_vendors [] 40000 [] empty_world)) =
       [mk_vendor ''Y'' ''cement'' 35000, mk_vendor ''X'' ''cement'' 39000,
        mk_vendor ''Z'' ''cement'' 39000]"
proof -
  have e: "eligible (fst (filter_vendors tied_vendors [] 40000 [] empty_world)) =
       [mk_vendor ''Y'' ''cement'' 35000, mk_vendor ''X'' ''cement'' 39000,
        mk_vendor ''Z'' ''cement'' 39000]"
    by (simp add: buckets vendor_eval string_eval)
  have l: "(0::nat) < 1 \<and> 1 < length (eligible (fst (filter_vendors tied_vendors [] 40000 [] empty_world)))"
    by (simp add: e)
  from eligible_sorted_stable [of tied_vendors "[]" 40000 "[]" empty_world]
  have "price_of (eligible (fst (filter_vendors tied_vendors [] 40000 [] empty_world)) ! 0)
      \<le> price_of (eligible (fst (filter_vendors tied_vendors [] 40000 [] empty_world)) ! 1)"
    using l by blast
  with l e show ?thesis by blast
qed

section \<open>Properties of fetch_vendors\<close>

lemma matched_eq:
  "fst (fetch_vendors material w) = filter (category_matches material) (get (vendors_file w) [])"
proof -
  have "category_matches material = (\<lambda>v. lower (get (v_category v) []) = lower (strip material))"
    by (simp add: category_matches_def fun_eq_iff)
  then show ?thesis by (simp add: fetch_vendors_def Let_def)
qed

lemma fetch_world:
  "snd (fetch_vendors material w) =
     (if fst (fetch_vendors material w) = [] then
        log_decision ''vendor_rejected'' []
          [(''reason'', DStr (''No vendors found for material '' @ quote @ material @ quote)),
           (''available_categories'',
            DList (sort (remdups (map category_of (get (vendors_file w) [])))))] w
      else w)"
proof -
  have "category_of = (\<lambda>v. get (v_category v) ''unknown'')"
    by (simp add: category_of_def fun_eq_iff)
  then show ?thesis by (simp add: fetch_vendors_def Let_def)
qed

text \<open>
  C6 (amended). For every material string and catalog, \<open>fetch_vendors\<close> returns, in catalog
  order, exactly the catalog vendors whose category (the empty string when absent),
  lowercased, equals the material trimmed and lowercased; the category of the vendor is
  not trimmed. When there is a match nothing else happens. When there is none the result
  is empty and one \<open>vendor_rejected\<close> event goes to \<open>log_decision\<close>, whose details list
  the catalog's categories sorted and without repetition (\<open>unknown\<close> for a vendor without
  one); the audit log grows by that one entry unless writing it fails.
\<close>

theorem fetch_vendors_matches:
  fixes material w
  defines "matched \<equiv> fst (fetch_vendors material w)"
    and "w' \<equiv> snd (fetch_vendors material w)"
    and "all_vendors \<equiv> get (vendors_file w) []"
  shows "matched = filter (category_matches material) all_vendors
    \<and> (matched \<noteq> [] \<longrightarrow> w' = w)
    \<and> (matched = [] \<longrightarrow>
         (\<exists>available.
            w' = log_decision ''vendor_rejected'' []
                   [(''reason'', DStr (''No vendors found for material '' @ quote @ material @ quote)),
                    (''available_categories'', DList available)] w
            \<and> sorted available \<and> distinct available
            \<and> set available = set (map category_of all_vendors))
         \<and> (\<not> audit_fault w \<longrightarrow> length (audit_log w') = length (audit_log w) + 1)
         \<and> memory_store w' = memory_store w \<and> vendors_file w' = vendors_file w)"
proof (intro conjI impI)
  show "matched = filter (category_matches material) all_vendors"
    by (simp add: matched_def all_vendors_def matched_eq)
next
  assume "matched \<noteq> []"
  then show "w' = w"
    unfolding matched_def w'_def by (subst fetch_world) simp
next
  assume "matched = []"
  then have w: "w' = log_decision ''vendor_rejected'' []
                   [(''reason'', DStr (''No vendors found for material '' @ quote @ material @ quote)),
                    (''available_categories'', DList (sort (remdups (map category_of all_vendors))))] w"
    unfolding matched_def w'_def all_vendors_def by (subst fetch_world) simp
  then show "\<exists>available.
            w' = log_decision ''vendor_rejected'' []
                   [(''reason'', DStr (''No vendors found for material '' @ quote @ material @ quote)),
                    (''available_categories'', DList available)] w
            \<and> sorted available \<and> distinct available
            \<and> set available = set (map category_of all_vendors)"
    by (intro exI [of _ "sort (remdups (map category_of all_vendors))"]) simp
  from w show "memory_store w' = memory_store w" by (simp add: log_decision_def)
  from w show "vendors_file w' = vendors_file w" by (simp add: log_decision_def)
  assume "\<not> audit_fault w"
  with w show "length (audit_log w') = length (audit_log w) + 1"
    by (simp add: log_decision_def)
qed

text \<open>
  The theorem on a catalog of two categories: a match in another case and with blanks
  around the material, and a material that is not in the catalog.
\<close>

theorem fetch_vendors_matches_witness:
  "fst (fetch_vendors ''  CEMENT '' catalog_world) = cement_vendors
   \<and> fst (fetch_vendors ''  CEMENT '' catalog_world) \<noteq> []
   \<and> snd (fetch_vendors ''  CEMENT '' catalog_world) = catalog_world
   \<and> fst (fetch_vendors ''glass'' catalog_world) = []
   \<and> \<not> audit_fault catalog_world
   \<and> length (audit_log (snd (fetch_vendors ''glass'' catalog_world)))
       = length (audit_log catalog_world) + 1
   \<and> audit_log (snd (fetch_vendors ''glass'' catalog_world)) =
       [\<lparr>event_type = ''vendor_rejected'', event_site_name = [],
         event_details =
           [(''reason'', DStr (''No vendors found for material '' @ quote @ ''glass'' @ quote)),
            (''available_categories'', DList [''Steel'', ''cement''])]\<rparr>]"
proof -
  have a: "fst (fetch_vendors ''  CEMENT '' catalog_world) = cement_vendors"
    by (simp add: matched_eq category_matches_def catalog_world_def vendor_eval string_eval)
  have a': "fst (fetch_vendors ''  CEMENT '' catalog_world) \<noteq> []"
    unfolding a by (simp add: cement_vendors_def)
  have b: "fst (fetch_vendors ''glass'' catalog_world) = []"
    by (simp add: matched_eq category_matches_def catalog_world_def vendor_eval string_eval)
  have f: "\<not> audit_fault catalog_world"
    by (simp add: catalog_world_def)
  have l: "audit_log (snd (fetch_vendors ''glass'' catalog_world)) =
       [\<lparr>event_type = ''vendor_rejected'', event_site_name = [],
         event_details =
           [(''reason'', DStr (''No vendors found for material '' @ quote @ ''glass'' @ quote)),
            (''available_categories'', DList [''Steel'', ''cement''])]\<rparr>]"
    by (simp add: fetch_vendors_def Let_def log_decision_def catalog_world_def vendor_eval
          string_eval)
  from fetch_vendors_matches [of "''  CEMENT ''" catalog_world] a'
  have "snd (fetch_vendors ''  CEMENT '' catalog_world) = catalog_world" by blast
  moreover from fetch_vendors_matches [of "''glass''" catalog_world] b f
  have "length (audit_log (snd (fetch_vendors ''glass'' catalog_world)))
       = length (audit_log catalog_world) + 1" by blast
  ultimately show ?thesis using a a' b f l by blast
qed

text \<open>
  C6 as stated fails: a catalog vendor whose category ends in a blank matches the material
  when both sides are trimmed, and is not returned.
\<close>

theorem fetch_vendors_padded_category_counterexample:
  "category_matches_trimmed ''cement'' (mk_vendor ''V'' ''cement '' 1)
   \<and> vendors_file padded_catalog_world = Some [mk_vendor ''V'' ''cement '' 1]
   \<and> fst (fetch_vendors ''cement'' padded_catalog_world) = []"
  by (simp add: matched_eq category_matches_def category_matches_trimmed_def
        padded_catalog_world_def mk_vendor_def string_eval)

section \<open>The rounding error of the float arithmetic\<close>

text \<open>
  Each rounding to a float is off by at most the fraction \<open>1 / 2 ^ 53\<close> of the exact value,
  and the rounding to tenths by at most half a tenth. For an overage and a limit between 1
  and \<open>2 ^ 1000\<close> nothing overflows, and the tenths that \<open>place_order\<close> reports are
  within \<open>1 / 20 + x / 2 ^ 51\<close> of the exact percentage \<open>x\<close>.
\<close>

lemma round_half_even_error:
  assumes "0 < d"
  shows "\<bar>real_of_int (round_half_even n d) - real_of_int n / real_of_int d\<bar> \<le> 1 / 2"
proof -
  define q where "q = n div d"
  define r where "r = n mod d"
  have n: "n = d * q + r" by (simp add: q_def r_def)
  have r: "0 \<le> r" "r < d" using assms by (simp_all add: r_def)
  have d: "0 < real_of_int d" using assms by simp
  have x: "real_of_int n / real_of_int d = real_of_int q + real_of_int r / real_of_int d"
    using d by (simp add: n field_simps)
  have r0: "0 \<le> real_of_int r / real_of_int d" using r d by simp
  consider "2 * r < d" | "2 * r > d" | "2 * r = d" by linarith
  then show ?thesis
  proof cases
    case 1
    then have "round_half_even n d = q" by (simp add: round_half_even_def q_def r_def Let_def)
    moreover have "real_of_int r / real_of_int d \<le> 1 / 2"
      using 1 d by (simp add: field_simps)
    ultimately show ?thesis using r0 by (simp add: x)
  next
    case 2
    then have "round_half_even n d = q + 1"
      by (simp add: round_half_even_def q_def r_def Let_def)
    moreover have "1 / 2 \<le> real_of_int r / real_of_int d"
      using 2 d by (simp add: field_simps)
    moreover have "real_of_int r / real_of_int d \<le> 1"
      using r d by (simp add: field_simps)
    ultimately show ?thesis by (simp add: x)
  next
    case 3
    then have c: "round_half_even n d = q \<or> round_half_even n d = q + 1"
      by (simp add: round_half_even_def q_def r_def Let_def)
    have "real_of_int (2 * r) = real_of_int d" using 3 by simp
    then have "real_of_int d = 2 * real_of_int r" by simp
    then have h: "real_of_int r / real_of_int d = 1 / 2" using d by simp
    from c show ?thesis
    proof
      assume "round_half_even n d = q"
      then show ?thesis by (simp add: x h)
    next
      assume "round_half_even n d = q + 1"
      then show ?thesis by (simp add: x h)
    qed
  qed
qed

lemma bit_length_ge1: "0 < n \<Longrightarrow> 1 \<le> bit_length n"
proof (induction n rule: bit_length.induct)
  case (1 n)
  show ?case
  proof (cases "0 < n div 2")
    case True
    with 1 have "1 \<le> bit_length (n div 2)" by simp
    then show ?thesis using 1(2) by (subst bit_length.simps) simp
  next
    case False
    then have "bit_length (n div 2) = 0" by (simp add: bit_length.simps)
    then show ?thesis using 1(2) by (subst bit_length.simps) simp
  qed
qed

lemma bit_length_bounds:
  "0 < n \<Longrightarrow> 2 ^ nat (bit_length n - 1) \<le> n \<and> n < 2 ^ nat (bit_length n)"
proof (induction n rule: bit_length.induct)
  case (1 n)
  have bl: "bit_length n = 1 + bit_length (n div 2)"
    using 1(2) by (subst bit_length.simps) simp
  show ?case
  proof (cases "0 < n div 2")
    case True
    with 1 have ih: "2 ^ nat (bit_length (n div 2) - 1) \<le> n div 2"
      "n div 2 < 2 ^ nat (bit_length (n div 2))" by simp_all
    have g: "1 \<le> bit_length (n div 2)" using True by (rule bit_length_ge1)
    then have s: "nat (bit_length (n div 2)) = Suc (nat (bit_length (n div 2) - 1))" by simp
    have a: "2 ^ nat (bit_length n - 1) \<le> n"
    proof -
      have "(2::int) ^ nat (bit_length (n div 2)) = 2 * 2 ^ nat (bit_length (n div 2) - 1)"
        by (simp add: s)
      also have "\<dots> \<le> 2 * (n div 2)" using ih(1) by simp
      also have "\<dots> \<le> n" by simp
      finally show ?thesis by (simp add: bl)
    qed
    have b: "n < 2 ^ nat (bit_length n)"
    proof -
      have "n div 2 + 1 \<le> 2 ^ nat (bit_length (n div 2))" using ih(2) by simp
      then have "2 * (n div 2) + 2 \<le> 2 * 2 ^ nat (bit_length (n div 2))" by simp
      moreover have "n < 2 * (n div 2) + 2" by presburger
      moreover have "nat (bit_length n) = Suc (nat (bit_length (n div 2)))"
        using g by (simp add: bl)
      ultimately show ?thesis by simp
    qed
    from a b show ?thesis ..
  next
    case False
    then have n1: "n = 1" using 1(2) by presburger
    have "bit_length (n div 2) = 0" using False by (simp add: bit_length.simps)
    then have "bit_length n = 1" by (simp add: bl)
    then show ?thesis by (simp add: n1)
  qed
qed

lemma scaled_quotient:
  "real_of_int (n * 2 ^ nat (- q)) / real_of_int (d * 2 ^ nat q) =
     (real_of_int n / real_of_int d) / 2 powi q"
proof (cases "0 \<le> q")
  case True
  then show ?thesis by (simp add: power_int_def)
next
  case False
  then show ?thesis by (simp add: power_int_def field_simps)
qed

lemma scaled_value:
  "real_of_int (m * 2 ^ nat q) / real_of_int (2 ^ nat (- q)) = real_of_int m * 2 powi q"
proof (cases "0 \<le> q")
  case True
  then show ?thesis by (simp add: power_int_def)
next
  case False
  then show ?thesis by (simp add: power_int_def field_simps)
qed

lemma exponent_lower:
  assumes "0 < n" and "0 < d"
  shows "2 powi (exponent n d) \<le> real_of_int n / real_of_int d"
proof -
  define k where "k = bit_length n - bit_length d"
  have d: "0 < real_of_int d" using assms by simp
  show ?thesis
  proof (cases "d * 2 ^ nat k \<le> n * 2 ^ nat (- k)")
    case True
    then have e: "exponent n d = k" by (simp add: exponent_def k_def Let_def)
    have p: "0 < real_of_int (d * 2 ^ nat k)" using assms by simp
    from True have "real_of_int (d * 2 ^ nat k) \<le> real_of_int (n * 2 ^ nat (- k))"
      by (rule of_int_le_iff [THEN iffD2])
    then have "1 \<le> real_of_int (n * 2 ^ nat (- k)) / real_of_int (d * 2 ^ nat k)"
      using p by (simp add: field_simps)
    then have h: "1 \<le> (real_of_int n / real_of_int d) / 2 powi k"
      by (simp only: scaled_quotient)
    define X where "X = real_of_int n / real_of_int d"
    define P where "P = (2::real) powi k"
    have "0 < P" by (simp add: P_def)
    moreover have "1 \<le> X / P" using h by (simp only: X_def P_def)
    ultimately have "P \<le> X" by (simp add: pos_le_divide_eq)
    then show ?thesis by (simp only: e X_def P_def)
  next
    case False
    then have e: "exponent n d = k - 1" by (simp add: exponent_def k_def Let_def)
    have bn: "2 ^ nat (bit_length n - 1) \<le> n" using bit_length_bounds [OF assms(1)] by simp
    have bd: "d < 2 ^ nat (bit_length d)" using bit_length_bounds [OF assms(2)] by simp
    have gn: "1 \<le> bit_length n" using assms(1) by (rule bit_length_ge1)
    have gd: "1 \<le> bit_length d" using assms(2) by (rule bit_length_ge1)
    have rn: "(2::real) powi (bit_length n - 1) \<le> real_of_int n"
    proof -
      have "real_of_int (2 ^ nat (bit_length n - 1)) \<le> real_of_int n"
        using bn by (rule of_int_le_iff [THEN iffD2])
      then show ?thesis using gn by (simp add: power_int_def)
    qed
    have rd: "real_of_int d \<le> (2::real) powi (bit_length d)"
    proof -
      have "real_of_int d \<le> real_of_int (2 ^ nat (bit_length d))"
        using bd by (intro of_int_le_iff [THEN iffD2]) simp
      then show ?thesis using gd by (simp add: power_int_def)
    qed
    have ke: "k - 1 = (bit_length n - 1) - bit_length d" by (simp add: k_def)
    have "(2::real) powi (k - 1) = 2 powi (bit_length n - 1) / 2 powi (bit_length d)"
      unfolding ke by (rule power_int_diff) simp
    also have "\<dots> \<le> real_of_int n / 2 powi (bit_length d)"
      using rn by (simp add: divide_right_mono)
    also have "\<dots> \<le> real_of_int n / real_of_int d"
      using rd d assms(1) by (simp add: divide_left_mono)
    finally show ?thesis by (simp add: e)
  qed
qed

lemma round_binary64_error:
  assumes "0 < n" and "0 < d" and "2 powi (- 1022) \<le> real_of_int n / real_of_int d"
  shows "\<bar>real_of_int (fst (round_binary64 n d)) * 2 powi (snd (round_binary64 n d))
           - real_of_int n / real_of_int d\<bar> \<le> (real_of_int n / real_of_int d) / 2 ^ 53"
proof -
  define x where "x = real_of_int n / real_of_int d"
  define q where "q = max (exponent n d - 52) (- 1074)"
  define m where "m = round_half_even (n * 2 ^ nat (- q)) (d * 2 ^ nat q)"
  define P where "P = (2::real) powi q"
  have rb: "round_binary64 n d = (m, q)"
    using assms(1) by (simp add: round_binary64_def Let_def q_def m_def)
  have P: "0 < P" by (simp add: P_def)
  have "0 < d * 2 ^ nat q" using assms(2) by simp
  then have "\<bar>real_of_int m - real_of_int (n * 2 ^ nat (- q)) / real_of_int (d * 2 ^ nat q)\<bar>
               \<le> 1 / 2"
    unfolding m_def by (rule round_half_even_error)
  then have r: "\<bar>real_of_int m - x / P\<bar> \<le> 1 / 2"
    by (simp only: scaled_quotient x_def P_def)
  have "\<bar>real_of_int m * P - x\<bar> = \<bar>real_of_int m - x / P\<bar> * P"
    using P by (simp add: abs_mult [symmetric] field_simps)
  also have "\<dots> \<le> 1 / 2 * P" using r P by (intro mult_right_mono) simp_all
  finally have a: "\<bar>real_of_int m * P - x\<bar> \<le> P / 2" by simp
  have "P * 2 ^ 52 = 2 powi (q + 52)"
    by (simp add: P_def power_int_add)
  also have "\<dots> \<le> x"
  proof (cases "- 1074 \<le> exponent n d - 52")
    case True
    then have "q + 52 = exponent n d" by (simp add: q_def)
    then show ?thesis using exponent_lower [OF assms(1,2)] by (simp add: x_def)
  next
    case False
    then have "q + 52 = - 1022" by (simp add: q_def)
    then show ?thesis unfolding x_def by (simp only: assms(3))
  qed
  finally have "P * 2 ^ 52 \<le> x" .
  then have "P / 2 \<le> x / 2 ^ 53" by simp
  with a show ?thesis by (simp add: rb x_def P_def)
qed

lemma not_overflows:
  assumes "real_of_int m * 2 powi q < 2 ^ 1024"
  shows "\<not> overflows (m, q)"
proof
  assume "overflows (m, q)"
  then have q: "0 \<le> q" and le: "(2::int) ^ 1024 \<le> m * 2 ^ nat q"
    by (simp_all add: overflows_def)
  from le have "real_of_int (2 ^ 1024) \<le> real_of_int (m * 2 ^ nat q)"
    by (rule of_int_le_iff [THEN iffD2])
  then have "(2::real) ^ 1024 \<le> real_of_int m * 2 powi q"
    using q by (simp add: power_int_def)
  with assms show False by simp
qed

lemma rounded_value:
  assumes "0 < n" and "0 < d" and "2 powi (- 1022) \<le> real_of_int n / real_of_int d"
    and "real_of_int n / real_of_int d \<le> B"
  defines "v \<equiv> real_of_int (fst (round_binary64 n d)) * 2 powi (snd (round_binary64 n d))"
  shows "\<bar>v - real_of_int n / real_of_int d\<bar> \<le> (real_of_int n / real_of_int d) / 2 ^ 53"
    and "0 < v" and "v \<le> 2 * B" and "0 < fst (round_binary64 n d)"
proof -
  define x where "x = real_of_int n / real_of_int d"
  have x: "0 < x" using assms(1,2) by (simp add: x_def)
  show e: "\<bar>v - real_of_int n / real_of_int d\<bar> \<le> (real_of_int n / real_of_int d) / 2 ^ 53"
    unfolding v_def using assms(1-3) by (rule round_binary64_error)
  have s: "x / 2 ^ 53 \<le> x / 2" using x by (simp add: field_simps)
  from e have e': "\<bar>v - x\<bar> \<le> x / 2 ^ 53" by (simp only: x_def)
  from e' s x show v: "0 < v" by linarith
  from e' s x assms(4) show "v \<le> 2 * B" unfolding x_def [symmetric] by linarith
  have "0 < (2::real) powi (snd (round_binary64 n d))" by simp
  with v have "0 < real_of_int (fst (round_binary64 n d))"
    unfolding v_def by (simp add: zero_less_mult_iff)
  then show "0 < fst (round_binary64 n d)" by simp
qed

lemma percentage_bound:
  assumes "0 < b" and "0 < a" and "b \<le> 2 ^ 1000" and "a \<le> 2 ^ 1000"
  shows "\<exists>m q k. true_divide a b = Inr (Finite False m q)
           \<and> round_1 (times_100 (Finite False m q)) = Tenths False k
           \<and> \<bar>real_of_int k / 10 - 100 * real_of_int a / real_of_int b\<bar>
               \<le> 1 / 20 + (100 * real_of_int a / real_of_int b) / 2 ^ 51"
proof -
  define Q where "Q = real_of_int a / real_of_int b"
  define B where "B = (2::real) ^ 1000"
  have B: "0 < B" by (simp add: B_def)
  have l1: "1 \<le> real_of_int b" and o1: "1 \<le> real_of_int a" using assms(1,2) by simp_all
  have "real_of_int b \<le> real_of_int (2 ^ 1000)" using assms(3) by (rule of_int_le_iff [THEN iffD2])
  then have lB: "real_of_int b \<le> B" by (simp add: B_def)
  have "real_of_int a \<le> real_of_int (2 ^ 1000)" using assms(4) by (rule of_int_le_iff [THEN iffD2])
  then have oB: "real_of_int a \<le> B" by (simp add: B_def)
  have Qpos: "0 < Q" using assms(1,2) by (simp add: Q_def)
  have "Q \<le> real_of_int a / 1" unfolding Q_def using l1 o1 by (intro divide_left_mono) simp_all
  with oB have QB: "Q \<le> B" by simp
  have "1 / B \<le> 1 / real_of_int b" using lB l1 by (intro divide_left_mono) simp_all
  also have "\<dots> \<le> Q" unfolding Q_def using o1 l1 by (intro divide_right_mono) simp_all
  finally have Qlow: "1 / B \<le> Q" .
  have "(2::real) powi (- 1022) \<le> 2 powi (- 1000)"
    by (intro less_imp_le power_int_strict_increasing) simp_all
  also have "\<dots> = 1 / B" by (simp add: B_def power_int_minus_divide)
  finally have tiny: "(2::real) powi (- 1022) \<le> 1 / B" .
  define m where "m = fst (round_binary64 a b)"
  define q where "q = snd (round_binary64 a b)"
  define v where "v = real_of_int m * 2 powi q"
  have "2 powi (- 1022) \<le> Q" using tiny Qlow by linarith
  then have n1: "2 powi (- 1022) \<le> real_of_int a / real_of_int b" by (simp only: Q_def)
  have b1: "real_of_int a / real_of_int b \<le> B" using QB by (simp only: Q_def)
  note r1 = rounded_value [OF assms(2,1) n1 b1]
  have e1: "\<bar>v - Q\<bar> \<le> Q / 2 ^ 53" using r1(1) by (simp only: v_def m_def q_def Q_def)
  have vpos: "0 < v" using r1(2) by (simp only: v_def m_def q_def)
  have vB: "v \<le> 2 * B" using r1(3) by (simp only: v_def m_def q_def)
  have mpos: "0 < m" using r1(4) by (simp only: m_def)
  have "2 * B < 2 ^ 1024" by (simp add: B_def)
  with vB have "v < 2 ^ 1024" by linarith
  then have "\<not> overflows (m, q)" unfolding v_def by (rule not_overflows)
  then have no1: "\<not> overflows (round_binary64 a b)" by (simp add: m_def q_def)
  have td: "true_divide a b = Inr (Finite False m q)"
    using assms(1,2) no1 by (simp add: true_divide_def Let_def m_def q_def)
  define n' where "n' = 100 * m * 2 ^ nat q"
  define d' where "d' = (2::int) ^ nat (- q)"
  define m' where "m' = fst (round_binary64 n' d')"
  define q' where "q' = snd (round_binary64 n' d')"
  define v' where "v' = real_of_int m' * 2 powi q'"
  have n'pos: "0 < n'" using mpos by (simp add: n'_def)
  have d'pos: "0 < d'" by (simp add: d'_def)
  have "real_of_int ((100 * m) * 2 ^ nat q) / real_of_int (2 ^ nat (- q)) =
          real_of_int (100 * m) * 2 powi q"
    by (rule scaled_value)
  then have x': "real_of_int n' / real_of_int d' = 100 * v"
    by (simp add: n'_def d'_def v_def)
  have half: "Q / 2 ^ 53 \<le> Q / 2" using Qpos by (simp add: field_simps)
  have vlow: "Q / 2 \<le> v" using e1 half Qpos by linarith
  have "1 / B \<le> 100 * v" using vlow Qlow B vpos by linarith
  with tiny have "2 powi (- 1022) \<le> 100 * v" by linarith
  then have n2: "2 powi (- 1022) \<le> real_of_int n' / real_of_int d'" by (simp only: x')
  have "100 * v \<le> 200 * B" using vB by linarith
  then have b2: "real_of_int n' / real_of_int d' \<le> 200 * B" by (simp only: x')
  note r2 = rounded_value [OF n'pos d'pos n2 b2]
  have e2: "\<bar>v' - 100 * v\<bar> \<le> (100 * v) / 2 ^ 53"
    using r2(1) by (simp only: v'_def m'_def q'_def x')
  have v'B: "v' \<le> 2 * (200 * B)" using r2(3) by (simp only: v'_def m'_def q'_def)
  have "2 * (200 * B) < 2 ^ 1024" by (simp add: B_def)
  with v'B have "v' < 2 ^ 1024" by linarith
  then have "\<not> overflows (m', q')" unfolding v'_def by (rule not_overflows)
  then have no2: "\<not> overflows (round_binary64 n' d')" by (simp add: m'_def q'_def)
  have t100: "times_100 (Finite False m q) = Finite False m' q'"
    using no2 by (simp add: Let_def n'_def d'_def m'_def q'_def)
  define k where "k = round_half_even (10 * m' * 2 ^ nat q') (2 ^ nat (- q'))"
  have r1: "round_1 (Finite False m' q') = Tenths False k" by (simp add: k_def)
  have "(0::int) < 2 ^ nat (- q')" by simp
  then have "\<bar>real_of_int k - real_of_int (10 * m' * 2 ^ nat q') / real_of_int (2 ^ nat (- q'))\<bar>
               \<le> 1 / 2"
    unfolding k_def by (rule round_half_even_error)
  moreover have "real_of_int ((10 * m') * 2 ^ nat q') / real_of_int (2 ^ nat (- q')) =
          real_of_int (10 * m') * 2 powi q'"
    by (rule scaled_value)
  ultimately have e3: "\<bar>real_of_int k - 10 * v'\<bar> \<le> 1 / 2"
    by (simp add: v'_def mult.assoc)
  have s1: "v - Q \<le> Q / 2 ^ 53" "Q - v \<le> Q / 2 ^ 53"
    using e1 by (simp_all only: abs_le_iff minus_diff_eq)
  have s2: "v' - 100 * v \<le> (100 * v) / 2 ^ 53" "100 * v - v' \<le> (100 * v) / 2 ^ 53"
    using e2 by (simp_all only: abs_le_iff minus_diff_eq)
  have s3: "real_of_int k - 10 * v' \<le> 1 / 2" "10 * v' - real_of_int k \<le> 1 / 2"
    using e3 by (simp_all only: abs_le_iff minus_diff_eq)
  have up: "real_of_int k / 10 - 100 * Q \<le> 1 / 20 + (100 * Q) / 2 ^ 51"
    using s1 s2 s3 Qpos vpos by simp
  have lo: "100 * Q - real_of_int k / 10 \<le> 1 / 20 + (100 * Q) / 2 ^ 51"
    using s1 s2 s3 Qpos vpos by simp
  have final: "\<bar>real_of_int k / 10 - 100 * Q\<bar> \<le> 1 / 20 + (100 * Q) / 2 ^ 51"
    using up lo by (simp only: abs_le_iff minus_diff_eq)
  have Qe: "100 * real_of_int a / real_of_int b = 100 * Q" by (simp add: Q_def)
  show ?thesis
    using td t100 r1 final unfolding Qe by (intro exI [of _ m] exI [of _ q] exI [of _ k]) simp
qed

text \<open>Facts that evaluate the float arithmetic on concrete inputs.\<close>

lemma bit_length_nonpos: "n \<le> 0 \<Longrightarrow> bit_length n = 0"
  by (simp add: bit_length.simps)

lemma bit_length_pos: "0 < n \<Longrightarrow> bit_length n = 1 + bit_length (n div 2)"
  by (subst bit_length.simps) simp

lemmas float_eval = bit_length_nonpos bit_length_pos round_half_even_def exponent_def
  round_binary64_def overflows_def true_divide_def Let_def

section \<open>Defaults of filter_vendors\<close>

text \<open>
  C10. A vendor dict without the key \<open>price_per_100_bags_inr\<close> has price 0: when it is
  not blacklisted and the budget is not negative it is in \<open>eligible\<close>, no entry of
  \<open>over_budget\<close> has its price, and it stands before every eligible vendor of positive
  price. Every vendor dict without the key \<open>name\<close> is named \<open>Unknown\<close>: it is blacklisted
  exactly when \<open>unknown\<close> is in the trimmed, lowercased blacklist, and its entry in
  \<open>rejected\<close> or \<open>over_budget\<close> carries the name \<open>Unknown\<close>.
\<close>

theorem missing_price_and_name:
  fixes vs bl budget site w
  defines "r \<equiv> fst (filter_vendors vs bl budget site w)"
  shows "(\<forall>v \<in> set vs. v_price_per_100_bags_inr v = None \<longrightarrow>
            price_of v = 0
            \<and> (0 \<le> budget \<and> \<not> blacklisted bl v \<longrightarrow>
                  v \<in> set (eligible r)
                  \<and> budget_entry budget v \<notin> set (over_budget r)
                  \<and> (\<forall>e \<in> set (over_budget r). rej_price e \<noteq> price_of v)
                  \<and> (\<forall>i j. i < length (eligible r) \<and> j < length (eligible r)
                             \<and> eligible r ! i = v \<and> 0 < price_of (eligible r ! j) \<longrightarrow> i < j)))
    \<and> (\<forall>u \<in> set vs. v_name u = None \<longrightarrow>
          name_of u = ''Unknown''
          \<and> (blacklisted bl u \<longleftrightarrow> ''unknown'' \<in> set (map (\<lambda>name. lower (strip name)) bl))
          \<and> (blacklisted bl u \<longrightarrow>
                \<lparr>rej_vendor = ''Unknown'', rej_reason = ''Blacklisted for this site'',
                 rej_price = price_of u\<rparr> \<in> set (rejected r))
          \<and> (beyond_budget bl budget u \<longrightarrow>
                (\<exists>e \<in> set (over_budget r). rej_vendor e = ''Unknown'' \<and> rej_price e = price_of u))
          \<and> (within_budget bl budget u \<longrightarrow> u \<in> set (eligible r)))"
proof (rule conjI)
  show "\<forall>v \<in> set vs. v_price_per_100_bags_inr v = None \<longrightarrow>
            price_of v = 0
            \<and> (0 \<le> budget \<and> \<not> blacklisted bl v \<longrightarrow>
                  v \<in> set (eligible r)
                  \<and> budget_entry budget v \<notin> set (over_budget r)
                  \<and> (\<forall>e \<in> set (over_budget r). rej_price e \<noteq> price_of v)
                  \<and> (\<forall>i j. i < length (eligible r) \<and> j < length (eligible r)
                             \<and> eligible r ! i = v \<and> 0 < price_of (eligible r ! j) \<longrightarrow> i < j))"
  proof (intro ballI impI)
    fix v assume v: "v \<in> set vs" and np: "v_price_per_100_bags_inr v = None"
    have p0: "price_of v = 0"
      using np by (simp add: price_of_def get_def)
    have rest: "v \<in> set (eligible r)
                  \<and> budget_entry budget v \<notin> set (over_budget r)
                  \<and> (\<forall>e \<in> set (over_budget r). rej_price e \<noteq> price_of v)
                  \<and> (\<forall>i j. i < length (eligible r) \<and> j < length (eligible r)
                             \<and> eligible r ! i = v \<and> 0 < price_of (eligible r ! j) \<longrightarrow> i < j)"
      if h: "0 \<le> budget \<and> \<not> blacklisted bl v"
    proof -
      have wb: "within_budget bl budget v"
        using h p0 by (simp add: within_budget_def)
      have el: "v \<in> set (eligible r)"
        using v wb by (simp add: r_def buckets)
      have ob: "\<forall>e \<in> set (over_budget r). rej_price e \<noteq> price_of v"
        using h p0 by (auto simp: r_def buckets beyond_budget_def)
      have nb: "budget_entry budget v \<notin> set (over_budget r)"
        using ob by (metis rej_price_budget_entry)
      have srt: "sorted (map price_of (eligible r))"
        by (simp add: r_def buckets)
      have ahead: "\<forall>i j. i < length (eligible r) \<and> j < length (eligible r)
                     \<and> eligible r ! i = v \<and> 0 < price_of (eligible r ! j) \<longrightarrow> i < j"
      proof (intro allI impI)
        fix i j
        assume g: "i < length (eligible r) \<and> j < length (eligible r) \<and> eligible r ! i = v
                   \<and> 0 < price_of (eligible r ! j)"
        show "i < j"
        proof (rule ccontr)
          assume "\<not> i < j"
          then have "j \<le> i" by simp
          then have "map price_of (eligible r) ! j \<le> map price_of (eligible r) ! i"
            using srt g by (intro sorted_nth_mono) simp_all
          then show False using g p0 by simp
        qed
      qed
      from el nb ob ahead show ?thesis by blast
    qed
    from p0 rest show "price_of v = 0
            \<and> (0 \<le> budget \<and> \<not> blacklisted bl v \<longrightarrow>
                  v \<in> set (eligible r)
                  \<and> budget_entry budget v \<notin> set (over_budget r)
                  \<and> (\<forall>e \<in> set (over_budget r). rej_price e \<noteq> price_of v)
                  \<and> (\<forall>i j. i < length (eligible r) \<and> j < length (eligible r)
                             \<and> eligible r ! i = v \<and> 0 < price_of (eligible r ! j) \<longrightarrow> i < j))"
      by blast
  qed
next
  show "\<forall>u \<in> set vs. v_name u = None \<longrightarrow>
          name_of u = ''Unknown''
          \<and> (blacklisted bl u \<longleftrightarrow> ''unknown'' \<in> set (map (\<lambda>name. lower (strip name)) bl))
          \<and> (blacklisted bl u \<longrightarrow>
                \<lparr>rej_vendor = ''Unknown'', rej_reason = ''Blacklisted for this site'',
                 rej_price = price_of u\<rparr> \<in> set (rejected r))
          \<and> (beyond_budget bl budget u \<longrightarrow>
                (\<exists>e \<in> set (over_budget r). rej_vendor e = ''Unknown'' \<and> rej_price e = price_of u))
          \<and> (within_budget bl budget u \<longrightarrow> u \<in> set (eligible r))"
  proof (intro ballI impI)
    fix u assume u: "u \<in> set vs" and n: "v_name u = None"
    have unk: "lower (strip ''Unknown'') = ''unknown''"
      by (simp add: string_eval)
    have n1: "name_of u = ''Unknown''"
      using n by (simp add: name_of_def get_def)
    have n2: "blacklisted bl u \<longleftrightarrow> ''unknown'' \<in> set (map (\<lambda>name. lower (strip name)) bl)"
      unfolding blacklisted_def n1 unk ..
    have n3: "\<lparr>rej_vendor = ''Unknown'', rej_reason = ''Blacklisted for this site'',
                 rej_price = price_of u\<rparr> \<in> set (rejected r)" if "blacklisted bl u"
    proof -
      have "blacklist_entry u \<in> set (rejected r)"
        using that u by (simp add: r_def buckets)
      then show ?thesis by (simp add: blacklist_entry_def n1)
    qed
    have n4: "\<exists>e \<in> set (over_budget r). rej_vendor e = ''Unknown'' \<and> rej_price e = price_of u"
      if "beyond_budget bl budget u"
    proof -
      have "budget_entry budget u \<in> set (over_budget r)"
        using that u by (simp add: r_def buckets)
      then show ?thesis
        using n1 by (intro bexI [of _ "budget_entry budget u"]) simp_all
    qed
    have n5: "u \<in> set (eligible r)" if "within_budget bl budget u"
      using that u by (simp add: r_def buckets)
    from n1 n2 n3 n4 n5
    show "name_of u = ''Unknown''
          \<and> (blacklisted bl u \<longleftrightarrow> ''unknown'' \<in> set (map (\<lambda>name. lower (strip name)) bl))
          \<and> (blacklisted bl u \<longrightarrow>
                \<lparr>rej_vendor = ''Unknown'', rej_reason = ''Blacklisted for this site'',
                 rej_price = price_of u\<rparr> \<in> set (rejected r))
          \<and> (beyond_budget bl budget u \<longrightarrow>
                (\<exists>e \<in> set (over_budget r). rej_vendor e = ''Unknown'' \<and> rej_price e = price_of u))
          \<and> (within_budget bl budget u \<longrightarrow> u \<in> set (eligible r))"
      by blast
  qed
qed

text \<open>A vendor without a price sorts before one that costs 500 and came first in the input;
  a list of one vendor without a name has it rejected as \<open>Unknown\<close> when that name is
  blacklisted.\<close>

theorem missing_price_and_name_witness:
  "(0::int) \<le> 1000
   \<and> no_price_vendor \<in> set defaults_vendors
   \<and> v_price_per_100_bags_inr no_price_vendor = None
   \<and> \<not> blacklisted [''unknown''] no_price_vendor
   \<and> eligible (fst (filter_vendors defaults_vendors [''unknown''] 1000 [] empty_world))
       = [no_price_vendor, mk_vendor ''A'' ''cement'' 500]
   \<and> over_budget (fst (filter_vendors defaults_vendors [''unknown''] 1000 [] empty_world)) = []
   \<and> no_price_vendor
       \<in> set (eligible (fst (filter_vendors defaults_vendors [''unknown''] 1000 [] empty_world)))
   \<and> no_name_vendor \<in> set [no_name_vendor]
   \<and> v_name no_name_vendor = None
   \<and> blacklisted [''unknown''] no_name_vendor
   \<and> \<lparr>rej_vendor = ''Unknown'', rej_reason = ''Blacklisted for this site'', rej_price = 700\<rparr>
       \<in> set (rejected (fst (filter_vendors [no_name_vendor] [''unknown''] 1000 [] empty_world)))"
proof -
  have h1: "(0::int) \<le> 1000" by simp
  have h2: "no_price_vendor \<in> set defaults_vendors" by (simp add: defaults_vendors_def)
  have h3: "v_price_per_100_bags_inr no_price_vendor = None"
    by (simp add: no_price_vendor_def mk_vendor_def)
  have h4: "\<not> blacklisted [''unknown''] no_price_vendor"
    by (simp add: vendor_eval string_eval)
  have h5: "no_name_vendor \<in> set [no_name_vendor]" by simp
  have h6: "v_name no_name_vendor = None" by (simp add: no_name_vendor_def mk_vendor_def)
  have b: "blacklisted [''unknown''] no_name_vendor"
    by (simp add: vendor_eval string_eval)
  have p: "price_of no_name_vendor = 700"
    by (simp add: vendor_eval string_eval)
  have e: "eligible (fst (filter_vendors defaults_vendors [''unknown''] 1000 [] empty_world))
       = [no_price_vendor, mk_vendor ''A'' ''cement'' 500]"
    by (simp add: buckets vendor_eval string_eval)
  have o: "over_budget (fst (filter_vendors defaults_vendors [''unknown''] 1000 [] empty_world)) = []"
    by (simp add: buckets vendor_eval string_eval)
  note t1 = missing_price_and_name [where vs = defaults_vendors and bl = "[''unknown'']"
              and budget = 1000 and site = "[]" and w = empty_world]
  note t2 = missing_price_and_name [where vs = "[no_name_vendor]" and bl = "[''unknown'']"
              and budget = 1000 and site = "[]" and w = empty_world]
  from t2 h5 h6 b have "\<lparr>rej_vendor = ''Unknown'', rej_reason = ''Blacklisted for this site'',
      rej_price = price_of no_name_vendor\<rparr>
       \<in> set (rejected (fst (filter_vendors [no_name_vendor] [''unknown''] 1000 [] empty_world)))"
    by blast
  moreover from t1 h1 h2 h3 h4 have "no_price_vendor
       \<in> set (eligible (fst (filter_vendors defaults_vendors [''unknown''] 1000 [] empty_world)))"
    by blast
  ultimately show ?thesis using h1 h2 h3 h4 h5 h6 b e o unfolding p by blast
qed

section \<open>Properties of store_site_rules and retrieve_site_rules\<close>

lemma store_site_rules_written:
  assumes "strip S \<noteq> []" and "write_fault w = None"
  shows "snd (store_site_rules S L B w) =
     log_decision ''rules_stored'' (strip S)
       [(''approval_limit'', DInt L), (''vendor_blacklist'', DList (map strip B))]
       (w\<lparr>memory_store := (memory_store w)(strip S \<mapsto>
            Rules \<lparr>rules_approval_limit = L, rules_vendor_blacklist = map strip B\<rparr>)\<rparr>)"
  using assms by (simp add: store_site_rules_def Let_def write_json_def read_json_def)

lemma store_site_rules_memory:
  assumes "strip S \<noteq> []" and "write_fault w = None"
  shows "memory_store (snd (store_site_rules S L B w)) =
     (memory_store w)(strip S \<mapsto>
        Rules \<lparr>rules_approval_limit = L, rules_vendor_blacklist = map strip B\<rparr>)"
    and "write_fault (snd (store_site_rules S L B w)) = None"
  using assms by (simp_all add: store_site_rules_written log_decision_def)

lemma store_site_rules_open_fails:
  assumes "strip S \<noteq> []" and "write_fault w = Some (Open_fails e)"
  shows "store_site_rules S L B w =
     (''Error saving rules: File write error (memory_store.json): '' @ e, w)"
  using assms by (simp add: store_site_rules_def Let_def write_json_def read_json_def)

lemma store_site_rules_dump_fails:
  assumes "strip S \<noteq> []" and "write_fault w = Some (Dump_fails e)"
  shows "store_site_rules S L B w =
     (''Error saving rules: File write error (memory_store.json): '' @ e,
      w\<lparr>memory_store := Map.empty\<rparr>)"
  using assms by (simp add: store_site_rules_def Let_def write_json_def read_json_def)

lemma retrieve_site_rules_found:
  assumes "strip S \<noteq> []" and "memory_store w (strip S) = Some (Rules rules)"
  shows "retrieve_site_rules S w = Inr rules"
  using assms by (simp add: retrieve_site_rules_def Let_def read_json_def)

text \<open>
  C9 (amended). For every site name \<open>S\<close> that is not empty after trimming, limit \<open>L\<close> and
  blacklist \<open>B\<close>: when \<^verbatim>\<open>memory_store.json\<close> can be written, \<open>retrieve_site_rules S\<close> after
  \<open>store_site_rules S L B\<close> returns exactly the limit \<open>L\<close> and the blacklist \<open>B\<close> with each
  entry trimmed; a store after an earlier store for the same site leaves the same file as
  the later store alone (it overwrites), and no other key of the file changes. When the
  write fails, \<open>store_site_rules\<close> returns the text \<open>Error saving rules: ...\<close> and the
  rules are not stored: the file is as it was when it could not be opened, and is cut
  short, so that it reads as the empty dict, when the dump failed.
\<close>

theorem store_retrieve_roundtrip:
  assumes "strip S \<noteq> []"
  shows "(write_fault w = None \<longrightarrow>
            retrieve_site_rules S (snd (store_site_rules S L B w)) =
              Inr \<lparr>rules_approval_limit = L, rules_vendor_blacklist = map strip B\<rparr>
          \<and> memory_store (snd (store_site_rules S L B (snd (store_site_rules S L' B' w)))) =
              memory_store (snd (store_site_rules S L B w))
          \<and> retrieve_site_rules S (snd (store_site_rules S L B (snd (store_site_rules S L' B' w)))) =
              Inr \<lparr>rules_approval_limit = L, rules_vendor_blacklist = map strip B\<rparr>
          \<and> (\<forall>k. k \<noteq> strip S \<longrightarrow>
                memory_store (snd (store_site_rules S L B w)) k = memory_store w k))
    \<and> (\<forall>e. write_fault w = Some (Open_fails e) \<longrightarrow>
          store_site_rules S L B w =
            (''Error saving rules: File write error (memory_store.json): '' @ e, w))
    \<and> (\<forall>e. write_fault w = Some (Dump_fails e) \<longrightarrow>
          store_site_rules S L B w =
            (''Error saving rules: File write error (memory_store.json): '' @ e,
             w\<lparr>memory_store := Map.empty\<rparr>))"
proof (intro conjI impI allI)
  assume ok: "write_fault w = None"
  show "retrieve_site_rules S (snd (store_site_rules S L B w)) =
          Inr \<lparr>rules_approval_limit = L, rules_vendor_blacklist = map strip B\<rparr>"
    using assms ok by (intro retrieve_site_rules_found) (simp_all add: store_site_rules_memory)
  have ok': "write_fault (snd (store_site_rules S L' B' w)) = None"
    using assms ok by (rule store_site_rules_memory)
  show twice: "memory_store (snd (store_site_rules S L B (snd (store_site_rules S L' B' w)))) =
          memory_store (snd (store_site_rules S L B w))"
    using assms ok ok' by (simp add: store_site_rules_memory)
  show "retrieve_site_rules S (snd (store_site_rules S L B (snd (store_site_rules S L' B' w)))) =
          Inr \<lparr>rules_approval_limit = L, rules_vendor_blacklist = map strip B\<rparr>"
    using assms ok by (intro retrieve_site_rules_found) (simp_all add: twice store_site_rules_memory)
  fix k assume "k \<noteq> strip S"
  then show "memory_store (snd (store_site_rules S L B w)) k = memory_store w k"
    using assms ok by (simp add: store_site_rules_memory)
next
  fix e assume "write_fault w = Some (Open_fails e)"
  with assms show "store_site_rules S L B w =
            (''Error saving rules: File write error (memory_store.json): '' @ e, w)"
    by (rule store_site_rules_open_fails)
next
  fix e assume "write_fault w = Some (Dump_fails e)"
  with assms show "store_site_rules S L B w =
            (''Error saving rules: File write error (memory_store.json): '' @ e,
             w\<lparr>memory_store := Map.empty\<rparr>)"
    by (rule store_site_rules_dump_fails)
qed

text \<open>
  The theorem on a site name and a blacklist entry with blanks around them, and on a
  store whose dump fails.
\<close>

theorem store_retrieve_roundtrip_witness:
  "strip '' Delhi-Site-7 '' \<noteq> []
   \<and> write_fault empty_world = None
   \<and> retrieve_site_rules '' Delhi-Site-7 ''
       (snd (store_site_rules '' Delhi-Site-7 '' 38000 ['' BadRock Cements ''] empty_world)) =
       Inr \<lparr>rules_approval_limit = 38000, rules_vendor_blacklist = [''BadRock Cements'']\<rparr>
   \<and> retrieve_site_rules '' Delhi-Site-7 ''
       (snd (store_site_rules '' Delhi-Site-7 '' 38000 ['' BadRock Cements '']
          (snd (store_site_rules '' Delhi-Site-7 '' 50000 [''A'', ''B''] empty_world)))) =
       Inr \<lparr>rules_approval_limit = 38000, rules_vendor_blacklist = [''BadRock Cements'']\<rparr>
   \<and> strip ''Site-B'' \<noteq> []
   \<and> write_fault full_disk_world = Some (Dump_fails ''No space left on device'')
   \<and> store_site_rules ''Site-B'' 5 [] full_disk_world =
       (''Error saving rules: File write error (memory_store.json): No space left on device'',
        full_disk_world\<lparr>memory_store := Map.empty\<rparr>)"
proof -
  have s: "strip '' Delhi-Site-7 '' \<noteq> []" by (simp add: string_eval)
  have f: "write_fault empty_world = None" by (simp add: empty_world_def)
  have b: "map strip ['' BadRock Cements ''] = [''BadRock Cements'']" by (simp add: string_eval)
  have s': "strip ''Site-B'' \<noteq> []" by (simp add: string_eval)
  have f': "write_fault full_disk_world = Some (Dump_fails ''No space left on device'')"
    by (simp add: full_disk_world_def)
  note t = store_retrieve_roundtrip [OF s, where w = empty_world and L = 38000
             and B = "['' BadRock Cements '']" and L' = 50000 and B' = "[''A'', ''B'']",
             unfolded b]
  note t' = store_retrieve_roundtrip [OF s', where w = full_disk_world and L = 5 and B = "[]"]
  from t' f' have "store_site_rules ''Site-B'' 5 [] full_disk_world =
       (''Error saving rules: File write error (memory_store.json): '' @ ''No space left on device'',
        full_disk_world\<lparr>memory_store := Map.empty\<rparr>)"
    by blast
  then have d: "store_site_rules ''Site-B'' 5 [] full_disk_world =
       (''Error saving rules: File write error (memory_store.json): No space left on device'',
        full_disk_world\<lparr>memory_store := Map.empty\<rparr>)"
    by simp
  from t s f s' f' d show ?thesis by blast
qed

text \<open>
  C9 as stated fails when the file cannot be written: the rules are not stored, and
  \<open>retrieve_site_rules\<close> does not return them.
\<close>

theorem store_retrieve_write_fault_counterexample:
  "strip ''Site-A'' \<noteq> []
   \<and> retrieve_site_rules ''Site-A'' (snd (store_site_rules ''Site-A'' 100000 [] readonly_world))
       \<noteq> Inr \<lparr>rules_approval_limit = 100000, rules_vendor_blacklist = map strip []\<rparr>"
  by (simp add: store_site_rules_def retrieve_site_rules_def Let_def write_json_def read_json_def
        readonly_world_def string_eval)

section \<open>Properties of place_order and confirm_order\<close>

lemma memory_store_log_decision [simp]:
  "memory_store (log_decision ev site details w) = memory_store w"
  by (simp add: log_decision_def)

lemma write_fault_log_decision [simp]:
  "write_fault (log_decision ev site details w) = write_fault w"
  by (simp add: log_decision_def)

lemma orders_of_log_decision [simp]: "orders_of (log_decision ev site details w) = orders_of w"
  by (simp add: orders_of_def)

lemma orders_is_list_log_decision [simp]:
  "orders_is_list (log_decision ev site details w) = orders_is_list w"
  by (simp add: orders_is_list_def)

lemma append_order_list:
  "orders_is_list w \<Longrightarrow> append_order (memory_store w) new = Inr (orders_of w @ [new])"
  by (simp add: append_order_def orders_is_list_def orders_of_def
        split: option.splits entry.splits)

lemma append_order_clash:
  "\<not> orders_is_list w \<Longrightarrow> append_order (memory_store w) new = Inl AttributeError"
  by (simp add: append_order_def orders_is_list_def split: option.splits entry.splits)

lemma place_order_within:
  assumes "price \<le> approval_limit" and "orders_is_list w" and "write_fault w = None"
  shows "fst (place_order repr_float vendor_name price quantity material site_name approval_limit w) =
      Inr (''ORDER_CONFIRMED: Order placed: '' @ str_int quantity
           @ '' bags '' @ material @ '' from '' @ vendor_name @ '' at ''
           @ rupee @ commas price @ ''. ''
           @ ''Within approval limit of '' @ rupee @ commas approval_limit @ ''.'')"
    and "memory_store (snd (place_order repr_float vendor_name price quantity material site_name
                              approval_limit w)) =
      (memory_store w)(''orders'' \<mapsto> Orders (orders_of w @
         [confirmed_order vendor_name price quantity material site_name ''confirmed'']))"
  using assms
  by (simp_all add: place_order_def Let_def read_json_def write_json_def append_order_list
        confirmed_order_def)

lemma place_order_open_fails:
  assumes "price \<le> approval_limit" and "orders_is_list w"
    and "write_fault w = Some (Open_fails e)"
  shows "fst (place_order repr_float vendor_name price quantity material site_name approval_limit w) =
      Inr (''Error saving order: File write error (memory_store.json): '' @ e)"
    and "memory_store (snd (place_order repr_float vendor_name price quantity material site_name
                              approval_limit w)) = memory_store w"
  using assms
  by (simp_all add: place_order_def Let_def read_json_def write_json_def append_order_list)

lemma place_order_dump_fails:
  assumes "price \<le> approval_limit" and "orders_is_list w"
    and "write_fault w = Some (Dump_fails e)"
  shows "fst (place_order repr_float vendor_name price quantity material site_name approval_limit w) =
      Inr (''Error saving order: File write error (memory_store.json): '' @ e)"
    and "memory_store (snd (place_order repr_float vendor_name price quantity material site_name
                              approval_limit w)) = Map.empty"
  using assms
  by (simp_all add: place_order_def Let_def read_json_def write_json_def append_order_list)

lemma place_order_clash:
  assumes "price \<le> approval_limit" and "\<not> orders_is_list w"
  shows "fst (place_order repr_float vendor_name price quantity material site_name approval_limit w) =
      Inl AttributeError"
  using assms
  by (simp add: place_order_def Let_def read_json_def append_order_clash)

lemma place_order_escalated:
  assumes "approval_limit < price"
    and "true_divide (price - approval_limit) approval_limit = Inr ratio"
  shows "place_order repr_float vendor_name price quantity material site_name approval_limit w =
      (Inr (approval_text repr_float vendor_name price approval_limit (round_1 (times_100 ratio))),
       log_decision ''approval_requested'' site_name
         (approval_requested vendor_name price approval_limit (round_1 (times_100 ratio)))
         (log_decision ''vendor_selected'' site_name
            (vendor_selected vendor_name price quantity material) w))"
  using assms
  by (simp add: place_order_def Let_def approval_text_def approval_requested_def
        vendor_selected_def)

lemma place_order_raises:
  assumes "approval_limit < price"
    and "true_divide (price - approval_limit) approval_limit = Inl e"
  shows "place_order repr_float vendor_name price quantity material site_name approval_limit w =
      (Inl e, log_decision ''vendor_selected'' site_name
                (vendor_selected vendor_name price quantity material) w)"
  using assms by (simp add: place_order_def Let_def vendor_selected_def)

lemma place_order_zero_division:
  assumes "0 < price"
  shows "fst (place_order repr_float vendor_name price quantity material site_name 0 w) =
      Inl ZeroDivisionError"
  using assms by (simp add: place_order_raises true_divide_def)

lemma place_order_frame:
  assumes "approval_limit < price"
  shows "memory_store (snd (place_order repr_float vendor_name price quantity material site_name
                              approval_limit w)) = memory_store w"
    and "write_fault (snd (place_order repr_float vendor_name price quantity material site_name
                              approval_limit w)) = write_fault w"
  using assms
  by (cases "true_divide (price - approval_limit) approval_limit";
      simp add: place_order_escalated place_order_raises)+

lemma confirm_order_written:
  assumes "orders_is_list w" and "write_fault w = None"
  shows "fst (confirm_order vendor_name price quantity material site_name w) =
      Inr (''ORDER_CONFIRMED: Order placed: '' @ str_int quantity
           @ '' bags '' @ material @ '' from '' @ vendor_name @ '' at ''
           @ rupee @ commas price @ ''. (Human-approved over-budget order.)'')"
    and "memory_store (snd (confirm_order vendor_name price quantity material site_name w)) =
      (memory_store w)(''orders'' \<mapsto> Orders (orders_of w @
         [confirmed_order vendor_name price quantity material site_name
            ''confirmed_with_approval'']))"
  using assms
  by (simp_all add: confirm_order_def Let_def read_json_def write_json_def append_order_list
        confirmed_order_def)

lemma confirm_order_open_fails:
  assumes "orders_is_list w" and "write_fault w = Some (Open_fails e)"
  shows "confirm_order vendor_name price quantity material site_name w =
      (Inr (''Error saving order: File write error (memory_store.json): '' @ e), w)"
  using assms
  by (simp add: confirm_order_def Let_def read_json_def write_json_def append_order_list)

lemma confirm_order_dump_fails:
  assumes "orders_is_list w" and "write_fault w = Some (Dump_fails e)"
  shows "confirm_order vendor_name price quantity material site_name w =
      (Inr (''Error saving order: File write error (memory_store.json): '' @ e),
       w\<lparr>memory_store := Map.empty\<rparr>)"
  using assms
  by (simp add: confirm_order_def Let_def read_json_def write_json_def append_order_list)

lemma orders_of_upd:
  "memory_store w' = (memory_store w)(''orders'' \<mapsto> Orders os) \<Longrightarrow> orders_of w' = os"
  by (simp add: orders_of_def)

lemma orders_of_same: "memory_store w' = memory_store w \<Longrightarrow> orders_of w' = orders_of w"
  by (simp add: orders_of_def)

lemma orders_of_empty: "memory_store w' = Map.empty \<Longrightarrow> orders_of w' = []"
  by (simp add: orders_of_def)

lemma orders_is_list_same:
  "memory_store w' = memory_store w \<Longrightarrow> orders_is_list w' = orders_is_list w"
  by (simp add: orders_is_list_def)

lemma true_divide_in_range:
  assumes "0 < approval_limit" and "approval_limit < price" and "price \<le> 2 ^ 1000"
  shows "\<exists>m q k. true_divide (price - approval_limit) approval_limit = Inr (Finite False m q)
           \<and> round_1 (times_100 (Finite False m q)) = Tenths False k
           \<and> \<bar>real_of_int k / 10
                - 100 * real_of_int (price - approval_limit) / real_of_int approval_limit\<bar>
               \<le> 1 / 20
                 + (100 * real_of_int (price - approval_limit) / real_of_int approval_limit)
                   / 2 ^ 51"
  using assms by (intro percentage_bound) simp_all

lemma approval_text_prefix:
  "prefix ''APPROVAL_REQUIRED'' (approval_text repr_float vendor_name price approval_limit x)"
  "\<not> prefix ''ORDER_CONFIRMED'' (approval_text repr_float vendor_name price approval_limit x)"
  by (simp_all add: approval_text_def)

text \<open>
  The two escalations that are evaluated below: 45000 against a limit of 40000, and 25750
  against a limit of 20000.
\<close>

lemma documented_escalation:
  "true_divide (45000 - 40000) 40000 = Inr (Finite False 4503599627370496 (- 55))"
  "round_1 (times_100 (Finite False 4503599627370496 (- 55))) = Tenths False 125"
  by (simp_all add: float_eval)

lemma half_escalation:
  "true_divide (25750 - 20000) 20000 = Inr (Finite False 5179139571476070 (- 54))"
  "round_1 (times_100 (Finite False 5179139571476070 (- 54))) = Tenths False 287"
  by (simp_all add: float_eval)

lemma place_order_45000:
  "place_order repr_float vendor_name 45000 quantity material site_name 40000 w =
     (Inr (approval_text repr_float vendor_name 45000 40000 (Tenths False 125)),
      log_decision ''approval_requested'' site_name
        (approval_requested vendor_name 45000 40000 (Tenths False 125))
        (log_decision ''vendor_selected'' site_name
           (vendor_selected vendor_name 45000 quantity material) w))"
proof -
  have "(40000::int) < 45000" by simp
  from place_order_escalated [OF this documented_escalation(1)]
  show ?thesis unfolding documented_escalation(2) .
qed

lemma place_order_25750:
  "place_order repr_float vendor_name 25750 quantity material site_name 20000 w =
     (Inr (approval_text repr_float vendor_name 25750 20000 (Tenths False 287)),
      log_decision ''approval_requested'' site_name
        (approval_requested vendor_name 25750 20000 (Tenths False 287))
        (log_decision ''vendor_selected'' site_name
           (vendor_selected vendor_name 25750 quantity material) w))"
proof -
  have "(20000::int) < 25750" by simp
  from place_order_escalated [OF this half_escalation(1)]
  show ?thesis unfolding half_escalation(2) .
qed

text \<open>
  C2 (amended). For every call of \<open>place_order\<close>: when the price is at most the approval
  limit (equality included), the key \<^verbatim>\<open>"orders"\<close> of the store holds a list or is absent,
  and the store can be written, an order with status \<open>confirmed\<close> is appended to the orders
  list and the result starts with \<open>ORDER_CONFIRMED\<close>; when the write fails the result is
  the text \<open>Error saving order: ...\<close> and no order is appended (the store is as it was
  when the file could not be opened, and reads as the empty dict when the dump failed).
  When the price is above the limit and the division of the overage by the limit returns
  a float, as it does for every limit from 1 and price up to \<open>2 ^ 1000\<close>, the result starts
  with \<open>APPROVAL_REQUIRED\<close>, not with \<open>ORDER_CONFIRMED\<close>, and the orders list is unchanged.
\<close>

theorem place_order_gate:
  fixes repr_float vendor_name price quantity material site_name approval_limit w
  defines "res \<equiv> place_order repr_float vendor_name price quantity material site_name
                     approval_limit w"
  shows "(price \<le> approval_limit \<and> orders_is_list w \<and> write_fault w = None \<longrightarrow>
            (\<exists>text. fst res = Inr text \<and> prefix ''ORDER_CONFIRMED'' text
                    \<and> \<not> prefix ''APPROVAL_REQUIRED'' text)
            \<and> orders_of (snd res) = orders_of w @
                 [confirmed_order vendor_name price quantity material site_name ''confirmed''])
    \<and> (\<forall>e. price \<le> approval_limit \<and> orders_is_list w
             \<and> write_fault w = Some (Open_fails e) \<longrightarrow>
            fst res = Inr (''Error saving order: File write error (memory_store.json): '' @ e)
            \<and> memory_store (snd res) = memory_store w)
    \<and> (\<forall>e. price \<le> approval_limit \<and> orders_is_list w
             \<and> write_fault w = Some (Dump_fails e) \<longrightarrow>
            fst res = Inr (''Error saving order: File write error (memory_store.json): '' @ e)
            \<and> memory_store (snd res) = Map.empty)
    \<and> (\<forall>ratio. approval_limit < price
             \<and> true_divide (price - approval_limit) approval_limit = Inr ratio \<longrightarrow>
            (\<exists>text. fst res = Inr text \<and> prefix ''APPROVAL_REQUIRED'' text
                    \<and> \<not> prefix ''ORDER_CONFIRMED'' text)
            \<and> orders_of (snd res) = orders_of w)
    \<and> (0 < approval_limit \<and> approval_limit < price \<and> price \<le> 2 ^ 1000 \<longrightarrow>
            (\<exists>text. fst res = Inr text \<and> prefix ''APPROVAL_REQUIRED'' text
                    \<and> \<not> prefix ''ORDER_CONFIRMED'' text)
            \<and> orders_of (snd res) = orders_of w)"
proof -
  have esc: "(\<exists>text. fst res = Inr text \<and> prefix ''APPROVAL_REQUIRED'' text
                    \<and> \<not> prefix ''ORDER_CONFIRMED'' text)
            \<and> orders_of (snd res) = orders_of w"
    if "approval_limit < price"
      and "true_divide (price - approval_limit) approval_limit = Inr ratio" for ratio
  proof
    show "\<exists>text. fst res = Inr text \<and> prefix ''APPROVAL_REQUIRED'' text
                    \<and> \<not> prefix ''ORDER_CONFIRMED'' text"
      unfolding res_def using that by (simp add: place_order_escalated approval_text_prefix)
    show "orders_of (snd res) = orders_of w"
      unfolding res_def using that(1) by (intro orders_of_same) (rule place_order_frame)
  qed
  show ?thesis
  proof (intro conjI impI allI)
    assume h: "price \<le> approval_limit \<and> orders_is_list w \<and> write_fault w = None"
    show "\<exists>text. fst res = Inr text \<and> prefix ''ORDER_CONFIRMED'' text
                    \<and> \<not> prefix ''APPROVAL_REQUIRED'' text"
      unfolding res_def using h by (simp add: place_order_within)
    show "orders_of (snd res) = orders_of w @
                 [confirmed_order vendor_name price quantity material site_name ''confirmed'']"
      unfolding res_def using h by (intro orders_of_upd [of _ w]) (simp add: place_order_within)
  next
    fix e
    assume h: "price \<le> approval_limit \<and> orders_is_list w \<and> write_fault w = Some (Open_fails e)"
    show "fst res = Inr (''Error saving order: File write error (memory_store.json): '' @ e)"
      unfolding res_def using h by (simp add: place_order_open_fails)
    show "memory_store (snd res) = memory_store w"
      unfolding res_def using h by (simp add: place_order_open_fails)
  next
    fix e
    assume h: "price \<le> approval_limit \<and> orders_is_list w \<and> write_fault w = Some (Dump_fails e)"
    show "fst res = Inr (''Error saving order: File write error (memory_store.json): '' @ e)"
      unfolding res_def using h by (simp add: place_order_dump_fails)
    show "memory_store (snd res) = Map.empty"
      unfolding res_def using h by (simp add: place_order_dump_fails)
  next
    fix ratio
    assume h: "approval_limit < price
             \<and> true_divide (price - approval_limit) approval_limit = Inr ratio"
    then show "\<exists>text. fst res = Inr text \<and> prefix ''APPROVAL_REQUIRED'' text
                    \<and> \<not> prefix ''ORDER_CONFIRMED'' text"
      and "orders_of (snd res) = orders_of w"
      using esc [of ratio] by blast+
  next
    assume h: "0 < approval_limit \<and> approval_limit < price \<and> price \<le> 2 ^ 1000"
    then obtain m q where
      "true_divide (price - approval_limit) approval_limit = Inr (Finite False m q)"
      using true_divide_in_range [of approval_limit price] by blast
    with h show "\<exists>text. fst res = Inr text \<and> prefix ''APPROVAL_REQUIRED'' text
                    \<and> \<not> prefix ''ORDER_CONFIRMED'' text"
      and "orders_of (snd res) = orders_of w"
      using esc [of "Finite False m q"] by blast+
  qed
qed

text \<open>
  The theorem on the two documented calls: a price equal to the limit, and 45000 against
  a limit of 40000.
\<close>

theorem place_order_gate_witness:
  "(39000::int) \<le> 39000 \<and> orders_is_list empty_world \<and> write_fault empty_world = None
   \<and> fst (place_order repr_documented ''SlowRock Cements'' 39000 100 ''cement'' ''Site-1'' 39000
            empty_world) =
       Inr (''ORDER_CONFIRMED: Order placed: 100 bags cement from SlowRock Cements at ''
            @ rupee @ ''39,000. Within approval limit of '' @ rupee @ ''39,000.'')
   \<and> orders_of (snd (place_order repr_documented ''SlowRock Cements'' 39000 100 ''cement''
                       ''Site-1'' 39000 empty_world)) =
       orders_of empty_world @
         [confirmed_order ''SlowRock Cements'' 39000 100 ''cement'' ''Site-1'' ''confirmed'']
   \<and> (0::int) < 40000 \<and> (40000::int) < 45000 \<and> (45000::int) \<le> 2 ^ 1000
   \<and> fst (place_order repr_documented ''GoodRock Cements'' 45000 100 ''cement'' ''Site-1'' 40000
            empty_world) =
       Inr (''APPROVAL_REQUIRED'' @ [CHR 0x0A] @ ''Order Details:'' @ [CHR 0x0A]
            @ ''  Vendor: GoodRock Cements'' @ [CHR 0x0A]
            @ ''  Cost: '' @ rupee @ ''45,000'' @ [CHR 0x0A]
            @ ''  Limit: '' @ rupee @ ''40,000'' @ [CHR 0x0A]
            @ ''  Overage: '' @ rupee @ ''5,000 (12.5%)'' @ [CHR 0x0A] @ [CHR 0x0A]
            @ ''Approve this order?'')
   \<and> orders_of (snd (place_order repr_documented ''GoodRock Cements'' 45000 100 ''cement''
                       ''Site-1'' 40000 empty_world)) = orders_of empty_world"
proof -
  have l: "orders_is_list empty_world" by (simp add: orders_is_list_def empty_world_def)
  have f: "write_fault empty_world = None" by (simp add: empty_world_def)
  have a: "fst (place_order repr_documented ''SlowRock Cements'' 39000 100 ''cement'' ''Site-1''
                  39000 empty_world) =
       Inr (''ORDER_CONFIRMED: Order placed: 100 bags cement from SlowRock Cements at ''
            @ rupee @ ''39,000. Within approval limit of '' @ rupee @ ''39,000.'')"
    using l f by (simp add: place_order_within string_eval)
  have b: "fst (place_order repr_documented ''GoodRock Cements'' 45000 100 ''cement'' ''Site-1''
                  40000 empty_world) =
       Inr (''APPROVAL_REQUIRED'' @ [CHR 0x0A] @ ''Order Details:'' @ [CHR 0x0A]
            @ ''  Vendor: GoodRock Cements'' @ [CHR 0x0A]
            @ ''  Cost: '' @ rupee @ ''45,000'' @ [CHR 0x0A]
            @ ''  Limit: '' @ rupee @ ''40,000'' @ [CHR 0x0A]
            @ ''  Overage: '' @ rupee @ ''5,000 (12.5%)'' @ [CHR 0x0A] @ [CHR 0x0A]
            @ ''Approve this order?'')"
    by (simp add: place_order_45000 approval_text_def repr_documented_def string_eval)
  have h1: "(39000::int) \<le> 39000" by simp
  have h2: "(0::int) < 40000 \<and> (40000::int) < 45000 \<and> (45000::int) \<le> 2 ^ 1000" by simp
  note t1 = place_order_gate [where price = 39000 and approval_limit = 39000
              and w = empty_world and repr_float = repr_documented
              and vendor_name = "''SlowRock Cements''" and quantity = 100
              and material = "''cement''" and site_name = "''Site-1''"]
  note t2 = place_order_gate [where price = 45000 and approval_limit = 40000
              and w = empty_world and repr_float = repr_documented
              and vendor_name = "''GoodRock Cements''" and quantity = 100
              and material = "''cement''" and site_name = "''Site-1''"]
  from t1 h1 l f have c: "orders_of (snd (place_order repr_documented ''SlowRock Cements'' 39000
       100 ''cement'' ''Site-1'' 39000 empty_world)) =
       orders_of empty_world @
         [confirmed_order ''SlowRock Cements'' 39000 100 ''cement'' ''Site-1'' ''confirmed'']"
    by blast
  from t2 h2 have d: "orders_of (snd (place_order repr_documented ''GoodRock Cements'' 45000 100
       ''cement'' ''Site-1'' 40000 empty_world)) = orders_of empty_world"
    by blast
  from h1 h2 l f a b c d show ?thesis by blast
qed

text \<open>
  C2 as stated fails when the store cannot be written: a price below the limit gets
  neither an order in the list nor a result starting with \<open>ORDER_CONFIRMED\<close>.
\<close>

theorem place_order_write_fault_counterexample:
  "(35000::int) \<le> 50000
   \<and> fst (place_order repr_documented ''BadRock Cements'' 35000 100 ''cement'' ''Site-1'' 50000
            readonly_world) =
       Inr ''Error saving order: File write error (memory_store.json): Permission denied''
   \<and> \<not> prefix ''ORDER_CONFIRMED''
         ''Error saving order: File write error (memory_store.json): Permission denied''
   \<and> orders_of (snd (place_order repr_documented ''BadRock Cements'' 35000 100 ''cement''
                       ''Site-1'' 50000 readonly_world)) = []"
proof -
  have l: "orders_is_list readonly_world" by (simp add: orders_is_list_def readonly_world_def)
  have f: "write_fault readonly_world = Some (Open_fails ''Permission denied'')"
    by (simp add: readonly_world_def)
  have o: "orders_of readonly_world = []" by (simp add: orders_of_def readonly_world_def)
  have "memory_store (snd (place_order repr_documented ''BadRock Cements'' 35000 100 ''cement''
                       ''Site-1'' 50000 readonly_world)) = memory_store readonly_world"
    using l f by (simp add: place_order_open_fails)
  then have "orders_of (snd (place_order repr_documented ''BadRock Cements'' 35000 100 ''cement''
                       ''Site-1'' 50000 readonly_world)) = orders_of readonly_world"
    by (rule orders_of_same)
  then show ?thesis using l f o by (simp add: place_order_open_fails)
qed

text \<open>
  C3 (amended). For every escalated call (price above the approval limit) \<open>place_order\<close>
  leaves the store, and so the persisted orders list, unchanged, also when the division
  raises. \<open>confirm_order\<close> makes no budget check: whenever the key \<^verbatim>\<open>"orders"\<close> holds a
  list or is absent and the store can be written, it appends an order with status
  \<open>confirmed_with_approval\<close> and returns a text starting with \<open>ORDER_CONFIRMED\<close>, so an
  escalated order is in the list after \<open>confirm_order\<close>. When the write fails,
  \<open>confirm_order\<close> returns \<open>Error saving order: ...\<close> and appends nothing: the store is as it
  was when the file could not be opened, and reads as the empty dict when the dump failed
  after the file was truncated.
\<close>

theorem escalation_not_persisted:
  fixes repr_float vendor_name price quantity material site_name approval_limit w
  defines "w1 \<equiv> snd (place_order repr_float vendor_name price quantity material site_name
                         approval_limit w)"
  shows "(approval_limit < price \<longrightarrow>
            memory_store w1 = memory_store w \<and> orders_of w1 = orders_of w)
    \<and> (orders_is_list w \<and> write_fault w = None \<longrightarrow>
          orders_of (snd (confirm_order vendor_name price quantity material site_name w)) =
            orders_of w @ [confirmed_order vendor_name price quantity material site_name
                             ''confirmed_with_approval'']
          \<and> (\<exists>text. fst (confirm_order vendor_name price quantity material site_name w) = Inr text
                     \<and> prefix ''ORDER_CONFIRMED'' text))
    \<and> (approval_limit < price \<and> orders_is_list w \<and> write_fault w = None \<longrightarrow>
          orders_of (snd (confirm_order vendor_name price quantity material site_name w1)) =
            orders_of w @ [confirmed_order vendor_name price quantity material site_name
                             ''confirmed_with_approval''])
    \<and> (\<forall>e. orders_is_list w \<and> write_fault w = Some (Open_fails e) \<longrightarrow>
          confirm_order vendor_name price quantity material site_name w =
            (Inr (''Error saving order: File write error (memory_store.json): '' @ e), w))
    \<and> (\<forall>e. orders_is_list w \<and> write_fault w = Some (Dump_fails e) \<longrightarrow>
          confirm_order vendor_name price quantity material site_name w =
            (Inr (''Error saving order: File write error (memory_store.json): '' @ e),
             w\<lparr>memory_store := Map.empty\<rparr>))"
proof (intro conjI impI allI)
  assume h: "approval_limit < price"
  show m: "memory_store w1 = memory_store w"
    unfolding w1_def using h by (rule place_order_frame)
  then show "orders_of w1 = orders_of w" by (rule orders_of_same)
next
  assume h: "orders_is_list w \<and> write_fault w = None"
  show "orders_of (snd (confirm_order vendor_name price quantity material site_name w)) =
            orders_of w @ [confirmed_order vendor_name price quantity material site_name
                             ''confirmed_with_approval'']"
    using h by (intro orders_of_upd [of _ w]) (simp add: confirm_order_written)
  show "\<exists>text. fst (confirm_order vendor_name price quantity material site_name w) = Inr text
                     \<and> prefix ''ORDER_CONFIRMED'' text"
    using h by (simp add: confirm_order_written)
next
  assume h: "approval_limit < price \<and> orders_is_list w \<and> write_fault w = None"
  have m: "memory_store w1 = memory_store w"
    unfolding w1_def using h by (intro place_order_frame) simp
  have l: "orders_is_list w1" using orders_is_list_same [OF m] h by simp
  have "write_fault w1 = write_fault w"
    unfolding w1_def using h by (intro place_order_frame) simp
  then have f: "write_fault w1 = None" using h by simp
  have "orders_of (snd (confirm_order vendor_name price quantity material site_name w1)) =
            orders_of w1 @ [confirmed_order vendor_name price quantity material site_name
                             ''confirmed_with_approval'']"
    using l f by (intro orders_of_upd [of _ w1]) (simp add: confirm_order_written)
  then show "orders_of (snd (confirm_order vendor_name price quantity material site_name w1)) =
            orders_of w @ [confirmed_order vendor_name price quantity material site_name
                             ''confirmed_with_approval'']"
    using orders_of_same [OF m] by simp
next
  fix e assume "orders_is_list w \<and> write_fault w = Some (Open_fails e)"
  then show "confirm_order vendor_name price quantity material site_name w =
            (Inr (''Error saving order: File write error (memory_store.json): '' @ e), w)"
    by (simp add: confirm_order_open_fails)
next
  fix e assume "orders_is_list w \<and> write_fault w = Some (Dump_fails e)"
  then show "confirm_order vendor_name price quantity material site_name w =
            (Inr (''Error saving order: File write error (memory_store.json): '' @ e),
             w\<lparr>memory_store := Map.empty\<rparr>)"
    by (simp add: confirm_order_dump_fails)
qed

text \<open>
  The theorem on the documented escalation: 45000 against a limit of 40000 in the empty
  store, followed by \<open>confirm_order\<close>.
\<close>

theorem escalation_not_persisted_witness:
  "(40000::int) < 45000 \<and> orders_is_list empty_world \<and> write_fault empty_world = None
   \<and> orders_of (snd (place_order repr_documented ''GoodRock Cements'' 45000 100 ''cement''
                       ''Site-1'' 40000 empty_world)) = []
   \<and> orders_of (snd (confirm_order ''GoodRock Cements'' 45000 100 ''cement'' ''Site-1''
                  (snd (place_order repr_documented ''GoodRock Cements'' 45000 100 ''cement''
                          ''Site-1'' 40000 empty_world)))) =
       [confirmed_order ''GoodRock Cements'' 45000 100 ''cement'' ''Site-1''
          ''confirmed_with_approval'']"
proof -
  have h: "(40000::int) < 45000" by simp
  have l: "orders_is_list empty_world" by (simp add: orders_is_list_def empty_world_def)
  have f: "write_fault empty_world = None" by (simp add: empty_world_def)
  have o: "orders_of empty_world = []" by (simp add: orders_of_def empty_world_def)
  note t = escalation_not_persisted [where price = 45000 and approval_limit = 40000
             and w = empty_world and repr_float = repr_documented
             and vendor_name = "''GoodRock Cements''" and quantity = 100
             and material = "''cement''" and site_name = "''Site-1''", unfolded o append_Nil]
  from t h l f show ?thesis by blast
qed

text \<open>
  C3 as stated fails when the store cannot be written: \<open>confirm_order\<close> returns an error
  text and the orders list stays empty.
\<close>

theorem confirm_order_write_fault_counterexample:
  "fst (confirm_order ''SlowRock Cements'' 39000 500 ''cement'' ''Delhi-Site-7'' readonly_world) =
       Inr ''Error saving order: File write error (memory_store.json): Permission denied''
   \<and> orders_of (snd (confirm_order ''SlowRock Cements'' 39000 500 ''cement'' ''Delhi-Site-7''
                       readonly_world)) = []"
proof -
  have l: "orders_is_list readonly_world" by (simp add: orders_is_list_def readonly_world_def)
  have f: "write_fault readonly_world = Some (Open_fails ''Permission denied'')"
    by (simp add: readonly_world_def)
  have o: "orders_of readonly_world = []" by (simp add: orders_of_def readonly_world_def)
  show ?thesis using l f o by (simp add: confirm_order_open_fails)
qed

text \<open>
  C4 (amended). For every call of \<open>place_order\<close> with an approval limit from 1, a price above
  the limit and at most \<open>2 ^ 1000\<close>, the escalation is returned and logged with
  \<open>overage = price - approval_limit\<close> exactly, and with an \<open>overage_pct\<close> that is the binary64
  value of \<^verbatim>\<open>round((overage / approval_limit) * 100, 1)\<close>: a whole number \<open>k\<close> of tenths whose
  distance from the exact percentage \<open>x = 100 * overage / approval_limit\<close> is at most
  \<open>1 / 20 + x / 2 ^ 51\<close>. It need not be the tenth nearest to \<open>x\<close> under a round-half rule.
\<close>

theorem escalation_arithmetic:
  assumes "0 < approval_limit" and "approval_limit < price" and "price \<le> 2 ^ 1000"
  shows "\<exists>k. place_order repr_float vendor_name price quantity material site_name
               approval_limit w =
             (Inr (approval_text repr_float vendor_name price approval_limit (Tenths False k)),
              log_decision ''approval_requested'' site_name
                (approval_requested vendor_name price approval_limit (Tenths False k))
                (log_decision ''vendor_selected'' site_name
                   (vendor_selected vendor_name price quantity material) w))
           \<and> map_of (approval_requested vendor_name price approval_limit (Tenths False k))
                ''overage'' = Some (DInt (price - approval_limit))
           \<and> map_of (approval_requested vendor_name price approval_limit (Tenths False k))
                ''overage_pct'' = Some (DFloat (Tenths False k))
           \<and> \<bar>real_of_int k / 10
                - 100 * real_of_int (price - approval_limit) / real_of_int approval_limit\<bar>
               \<le> 1 / 20
                 + (100 * real_of_int (price - approval_limit) / real_of_int approval_limit)
                   / 2 ^ 51"
proof -
  from true_divide_in_range [OF assms] obtain m q k where
    td: "true_divide (price - approval_limit) approval_limit = Inr (Finite False m q)"
    and r: "round_1 (times_100 (Finite False m q)) = Tenths False k"
    and b: "\<bar>real_of_int k / 10
                - 100 * real_of_int (price - approval_limit) / real_of_int approval_limit\<bar>
               \<le> 1 / 20
                 + (100 * real_of_int (price - approval_limit) / real_of_int approval_limit)
                   / 2 ^ 51"
    by blast
  have p: "place_order repr_float vendor_name price quantity material site_name
               approval_limit w =
             (Inr (approval_text repr_float vendor_name price approval_limit (Tenths False k)),
              log_decision ''approval_requested'' site_name
                (approval_requested vendor_name price approval_limit (Tenths False k))
                (log_decision ''vendor_selected'' site_name
                   (vendor_selected vendor_name price quantity material) w))"
    using place_order_escalated [OF assms(2) td] unfolding r .
  have o: "map_of (approval_requested vendor_name price approval_limit (Tenths False k))
                ''overage'' = Some (DInt (price - approval_limit))"
    and f: "map_of (approval_requested vendor_name price approval_limit (Tenths False k))
                ''overage_pct'' = Some (DFloat (Tenths False k))"
    by (simp_all add: approval_requested_def)
  from p o f b show ?thesis by blast
qed

text \<open>
  The theorem on the documented escalation: 45000 against a limit of 40000 is logged with
  12.5 percent.
\<close>

theorem escalation_arithmetic_witness:
  "(0::int) < 40000 \<and> (40000::int) < 45000 \<and> (45000::int) \<le> 2 ^ 1000
   \<and> snd (place_order repr_documented ''GoodRock Cements'' 45000 100 ''cement'' ''Site-1''
            40000 empty_world) =
       log_decision ''approval_requested'' ''Site-1''
         (approval_requested ''GoodRock Cements'' 45000 40000 (Tenths False 125))
         (log_decision ''vendor_selected'' ''Site-1''
            (vendor_selected ''GoodRock Cements'' 45000 100 ''cement'') empty_world)
   \<and> \<bar>real_of_int 125 / 10 - 100 * real_of_int (45000 - 40000) / real_of_int 40000\<bar>
       \<le> 1 / 20 + (100 * real_of_int (45000 - 40000) / real_of_int 40000) / 2 ^ 51"
proof -
  have h: "(0::int) < 40000" "(40000::int) < 45000" "(45000::int) \<le> 2 ^ 1000" by simp_all
  from escalation_arithmetic [OF h, of repr_documented "''GoodRock Cements''" 100 "''cement''"
         "''Site-1''" empty_world]
  obtain k where
    p: "place_order repr_documented ''GoodRock Cements'' 45000 100 ''cement'' ''Site-1''
          40000 empty_world =
             (Inr (approval_text repr_documented ''GoodRock Cements'' 45000 40000 (Tenths False k)),
              log_decision ''approval_requested'' ''Site-1''
                (approval_requested ''GoodRock Cements'' 45000 40000 (Tenths False k))
                (log_decision ''vendor_selected'' ''Site-1''
                   (vendor_selected ''GoodRock Cements'' 45000 100 ''cement'') empty_world))"
    and b: "\<bar>real_of_int k / 10 - 100 * real_of_int (45000 - 40000) / real_of_int 40000\<bar>
       \<le> 1 / 20 + (100 * real_of_int (45000 - 40000) / real_of_int 40000) / 2 ^ 51"
    by blast
  from p have "audit_log (snd (place_order repr_documented ''GoodRock Cements'' 45000 100
       ''cement'' ''Site-1'' 40000 empty_world)) ! 1 =
       \<lparr>event_type = ''approval_requested'', event_site_name = ''Site-1'',
        event_details = approval_requested ''GoodRock Cements'' 45000 40000 (Tenths False k)\<rparr>"
    by (simp add: log_decision_def empty_world_def)
  moreover have "audit_log (snd (place_order repr_documented ''GoodRock Cements'' 45000 100
       ''cement'' ''Site-1'' 40000 empty_world)) ! 1 =
       \<lparr>event_type = ''approval_requested'', event_site_name = ''Site-1'',
        event_details = approval_requested ''GoodRock Cements'' 45000 40000 (Tenths False 125)\<rparr>"
    by (simp add: place_order_45000 log_decision_def empty_world_def)
  ultimately have k: "k = 125" by (simp add: approval_requested_def)
  from p b h show ?thesis unfolding k by simp
qed

text \<open>
  C4 as stated fails at a price of 25750 against a limit of 20000: the exact percentage is
  28.75, which is 28.8 under round-half-up and under round-half-even, and the code logs
  28.7, since the float product \<^verbatim>\<open>(5750 / 20000) * 100\<close> is just below 28.75.
\<close>

theorem escalation_percentage_counterexample:
  "snd (place_order repr_documented ''GoodRock Cements'' 25750 100 ''cement'' ''Site-1''
            20000 empty_world) =
       log_decision ''approval_requested'' ''Site-1''
         (approval_requested ''GoodRock Cements'' 25750 20000 (Tenths False 287))
         (log_decision ''vendor_selected'' ''Site-1''
            (vendor_selected ''GoodRock Cements'' 25750 100 ''cement'') empty_world)
   \<and> claimed_pct_half_up (25750 - 20000) 20000 = 288
   \<and> claimed_pct_half_even (25750 - 20000) 20000 = 288"
  by (simp add: place_order_25750 claimed_pct_half_up_def claimed_pct_half_even_def
        round_half_even_def)

text \<open>
  C5. \<open>place_order\<close> with an approval limit of 0 and a price of 1 does not return a
  result: the division \<^verbatim>\<open>overage / approval_limit\<close> raises \<^verbatim>\<open>ZeroDivisionError\<close>, after
  the \<open>vendor_selected\<close> event has been logged.
\<close>

theorem place_order_zero_limit_raises:
  "fst (place_order repr_float vendor_name 1 quantity material site_name 0 w) =
     Inl ZeroDivisionError"
  by (simp add: place_order_zero_division)

end
